theory Spec2Isabelle
  imports Complex_Main "HOL-Library.AList"
begin

section \<open>History manager (SvgPreview.tsx: handleUpdate, undo, redo)\<close>

text \<open>
  The component keeps three pieces of React state: \<open>history\<close> (an array of document
  texts), \<open>historyIndex\<close> (a JavaScript number) and \<open>currentContent\<close>.  Every event
  handler runs to completion on the state of the last render, so the handlers are state
  transformers.  Reading an array out of range gives \<open>undefined\<close> in JavaScript; that value
  is \<open>None\<close> here.
\<close>

record editor =
  history :: "string list"
  historyIndex :: int
  currentContent :: "string option"

text \<open>\<open>xs.slice(0, e)\<close>: a negative end counts from the end of the array.\<close>

definition js_slice0 :: "'a list \<Rightarrow> int \<Rightarrow> 'a list" where
  "js_slice0 xs e = (if e < 0 then take (nat (int (length xs) + e)) xs else take (nat e) xs)"

text \<open>\<open>xs[i]\<close>: \<open>undefined\<close> out of range.\<close>

definition js_index :: "'a list \<Rightarrow> int \<Rightarrow> 'a option" where
  "js_index xs i = (if 0 \<le> i \<and> i < int (length xs) then Some (xs ! nat i) else None)"

text \<open>The initial values of the three \<open>useState\<close> calls.\<close>

definition initial_editor :: editor where
  "initial_editor = \<lparr>history = [], historyIndex = 0, currentContent = Some ''''\<rparr>"

definition handleUpdate :: "string \<Rightarrow> editor \<Rightarrow> editor" where
  "handleUpdate newContent s =
     (let newHistory = js_slice0 (history s) (historyIndex s + 1) @ [newContent]
      in s\<lparr>history := newHistory,
            historyIndex := int (length newHistory) - 1,
            currentContent := Some newContent\<rparr>)"

definition undo :: "editor \<Rightarrow> editor" where
  "undo s =
     (if historyIndex s > 0
      then s\<lparr>historyIndex := historyIndex s - 1,
             currentContent := js_index (history s) (historyIndex s - 1)\<rparr>
      else s)"

definition redo :: "editor \<Rightarrow> editor" where
  "redo s =
     (if historyIndex s < int (length (history s)) - 1
      then s\<lparr>historyIndex := historyIndex s + 1,
             currentContent := js_index (history s) (historyIndex s + 1)\<rparr>
      else s)"

text \<open>A session: commits first, then a sequence of undo and redo calls.\<close>

datatype nav = Undo | Redo

fun navigate :: "nav \<Rightarrow> editor \<Rightarrow> editor" where
  "navigate Undo s = undo s"
| "navigate Redo s = redo s"

definition commits :: "string list \<Rightarrow> editor \<Rightarrow> editor" where
  "commits docs s = fold handleUpdate docs s"

definition navigations :: "nav list \<Rightarrow> editor \<Rightarrow> editor" where
  "navigations ns s = fold navigate ns s"

text \<open>The log is consistent: the index points at an entry, and that entry is the
  current document.\<close>

definition consistent :: "editor \<Rightarrow> bool" where
  "consistent s \<longleftrightarrow>
     0 \<le> historyIndex s \<and> historyIndex s < int (length (history s)) \<and>
     currentContent s = Some (history s ! nat (historyIndex s))"

subsection \<open>Lemmas on the history manager\<close>

lemma handleUpdate_consistent: "consistent (handleUpdate c s)"
  by (simp add: consistent_def handleUpdate_def Let_def)

lemma undo_consistent: "consistent s \<Longrightarrow> consistent (undo s)"
  by (auto simp: consistent_def undo_def js_index_def)

lemma redo_consistent: "consistent s \<Longrightarrow> consistent (redo s)"
  by (auto simp: consistent_def redo_def js_index_def)

lemma undo_history [simp]: "history (undo s) = history s"
  by (simp add: undo_def)

lemma redo_history [simp]: "history (redo s) = history s"
  by (simp add: redo_def)

lemma navigate_consistent: "consistent s \<Longrightarrow> consistent (navigate n s)"
  by (cases n) (simp_all add: undo_consistent redo_consistent)

lemma navigate_history [simp]: "history (navigate n s) = history s"
  by (cases n) simp_all

lemma navigations_consistent: "consistent s \<Longrightarrow> consistent (navigations ns s)"
  unfolding navigations_def
  by (induction ns arbitrary: s) (simp_all add: navigate_consistent)

lemma navigations_history [simp]: "history (navigations ns s) = history s"
  unfolding navigations_def
  by (induction ns arbitrary: s) simp_all

lemma handleUpdate_at_end:
  assumes "historyIndex s = int (length (history s)) - 1"
  shows "history (handleUpdate c s) = history s @ [c]"
    and "historyIndex (handleUpdate c s) = int (length (history (handleUpdate c s))) - 1"
  using assms by (simp_all add: handleUpdate_def Let_def js_slice0_def)

lemma commits_append:
  "historyIndex s = int (length (history s)) - 1 \<Longrightarrow>
   history (commits docs s) = history s @ docs \<and>
   historyIndex (commits docs s) = int (length (history (commits docs s))) - 1"
  unfolding commits_def
proof (induction docs arbitrary: s)
  case Nil
  then show ?case by simp
next
  case (Cons d docs)
  have "historyIndex (handleUpdate d s) = int (length (history (handleUpdate d s))) - 1"
    using Cons.prems by (rule handleUpdate_at_end(2))
  from Cons.IH [OF this] show ?case
    using handleUpdate_at_end(1) [OF Cons.prems] by simp
qed

lemma commits_consistent: "docs \<noteq> [] \<Longrightarrow> consistent (commits docs s)"
  unfolding commits_def
proof (induction docs arbitrary: s rule: rev_induct)
  case Nil
  then show ?case by simp
next
  case (snoc d docs)
  show ?case by (simp add: handleUpdate_consistent)
qed

lemma redo_undo_restores:
  assumes "consistent s" "0 < historyIndex s"
  shows "redo (undo s) = s"
  using assms by (simp add: consistent_def undo_def redo_def js_index_def)

lemma undo_at_zero: "historyIndex s \<le> 0 \<Longrightarrow> undo s = s"
  by (simp add: undo_def)

lemma redo_at_last: "int (length (history s)) - 1 \<le> historyIndex s \<Longrightarrow> redo s = s"
  by (simp add: redo_def)

definition session :: "string list \<Rightarrow> nav list \<Rightarrow> editor" where
  "session docs ns = navigations ns (commits docs initial_editor)"

lemma session_history: "history (session docs ns) = docs"
proof -
  have "history (commits docs initial_editor) = docs"
  proof (cases docs)
    case Nil
    then show ?thesis by (simp add: commits_def initial_editor_def)
  next
    case (Cons d ds)
    have first: "handleUpdate d initial_editor =
        \<lparr>history = [d], historyIndex = 0, currentContent = Some d\<rparr>"
      by (simp add: handleUpdate_def initial_editor_def js_slice0_def)
    have "history (commits ds (handleUpdate d initial_editor)) =
        history (handleUpdate d initial_editor) @ ds"
      using commits_append [of "handleUpdate d initial_editor" ds] by (simp add: first)
    then show ?thesis by (simp add: Cons commits_def first)
  qed
  then show ?thesis by (simp add: session_def)
qed

lemma session_consistent: "docs \<noteq> [] \<Longrightarrow> consistent (session docs ns)"
  by (simp add: session_def navigations_consistent commits_consistent)

subsection \<open>Claims on the history manager\<close>

text \<open>
  Claim C2, as far as the code carries it.  The log starts empty (the \<open>useState\<close>
  initial values; loading a document gives the same state as the first commit), \<open>docs\<close>
  are the \<open>N \<ge> 1\<close> committed documents, \<open>ns\<close> is any sequence of undo and redo calls.
  Then the log holds exactly the \<open>N\<close> documents, the index lies in \<open>[0, N - 1]\<close>, undo at
  index \<open>0\<close> and redo at index \<open>N - 1\<close> change nothing, and an undo that moved the index
  (index above \<open>0\<close>) followed by redo gives back the whole state, the current document
  included.
\<close>

theorem history_bounds_and_undo_redo:
  assumes "docs \<noteq> []"
  shows "history (session docs ns) = docs
       \<and> 0 \<le> historyIndex (session docs ns)
       \<and> historyIndex (session docs ns) \<le> int (length docs) - 1
       \<and> currentContent (session docs ns) = Some (docs ! nat (historyIndex (session docs ns)))
       \<and> (historyIndex (session docs ns) = 0 \<longrightarrow> undo (session docs ns) = session docs ns)
       \<and> (historyIndex (session docs ns) = int (length docs) - 1 \<longrightarrow>
            redo (session docs ns) = session docs ns)
       \<and> (0 < historyIndex (session docs ns) \<longrightarrow>
            redo (undo (session docs ns)) = session docs ns)"
proof -
  let ?s = "session docs ns"
  have h: "history ?s = docs" by (rule session_history)
  have c: "consistent ?s" using assms by (rule session_consistent)
  have b: "0 \<le> historyIndex ?s" "historyIndex ?s \<le> int (length docs) - 1"
    using c h by (simp_all add: consistent_def)
  have cur: "currentContent ?s = Some (docs ! nat (historyIndex ?s))"
    using c h by (simp add: consistent_def)
  have u: "historyIndex ?s = 0 \<longrightarrow> undo ?s = ?s"
    by (simp add: undo_at_zero)
  have r: "historyIndex ?s = int (length docs) - 1 \<longrightarrow> redo ?s = ?s"
    using h by (simp add: redo_at_last)
  have rt: "0 < historyIndex ?s \<longrightarrow> redo (undo ?s) = ?s"
    using c by (simp add: redo_undo_restores)
  from h b cur u r rt show ?thesis by blast
qed

theorem history_bounds_and_undo_redo_witness:
  "historyIndex (session [''a'', ''b'', ''c''] [Undo, Undo, Redo]) = 1
   \<and> currentContent (session [''a'', ''b'', ''c''] [Undo, Undo, Redo]) = Some ''b''
   \<and> redo (undo (session [''a'', ''b'', ''c''] [Undo, Undo, Redo])) =
       session [''a'', ''b'', ''c''] [Undo, Undo, Redo]"
proof -
  have idx: "historyIndex (session [''a'', ''b'', ''c''] [Undo, Undo, Redo]) = 1"
    by (simp add: session_def navigations_def commits_def initial_editor_def
        handleUpdate_def undo_def redo_def js_slice0_def js_index_def)
  have ne: "[''a'', ''b'', ''c''] \<noteq> []" by simp
  from history_bounds_and_undo_redo [OF ne, of "[Undo, Undo, Redo]"] idx
  show ?thesis by simp
qed

text \<open>
  Claim C2 as stated also promises the round trip when the undo is the no-op at index
  \<open>0\<close>.  After the commits \<open>a\<close>, \<open>b\<close> and one undo the current document is \<open>a\<close> at index
  \<open>0\<close>; a further undo changes nothing, and the redo after it moves on to \<open>b\<close>.
\<close>

theorem undo_redo_at_index_zero_counterexample:
  "currentContent (session [''a'', ''b''] [Undo]) = Some ''a''
   \<and> undo (session [''a'', ''b''] [Undo]) = session [''a'', ''b''] [Undo]
   \<and> currentContent (redo (undo (session [''a'', ''b''] [Undo]))) = Some ''b''
   \<and> currentContent (redo (undo (session [''a'', ''b''] [Undo]))) \<noteq>
       currentContent (session [''a'', ''b''] [Undo])"
  by (simp add: session_def navigations_def commits_def initial_editor_def
      handleUpdate_def undo_def redo_def js_slice0_def js_index_def)



section \<open>Interactive transform controller (SvgPreview.tsx: TransformOverlay)\<close>

text \<open>
  JavaScript numbers are modelled by the reals: rounding of floating point, \<open>NaN\<close>, the
  infinities and the sign of zero are left out.  The zoom factor is kept within
  \<open>[0.1, 5]\<close> by the component, so the divisions by it are divisions by a non-zero
  number.
\<close>

record transform =
  rotate :: real
  scaleX :: real
  scaleY :: real
  skewX :: real
  skewY :: real

text \<open>The \<open>useState\<close> initial value of the overlay's transform.\<close>

definition initial_transform :: transform where
  "initial_transform = \<lparr>rotate = 0, scaleX = 1, scaleY = 1, skewX = 0, skewY = 0\<rparr>"

record box =
  box_x :: real
  box_y :: real
  box_width :: real
  box_height :: real

text \<open>What \<open>handleDragStart\<close> captures for the closures \<open>handleMove\<close> and \<open>handleUp\<close>:
  the handle (\<open>type\<close>), the pointer position at mouse-down, a copy of the transform, and
  the centre of the overlay box on the screen.\<close>

record gesture =
  handle :: string
  startX :: real
  startY :: real
  startTransform :: transform
  boxCenterX :: real
  boxCenterY :: real

record mouse_event =
  clientX :: real
  clientY :: real
  ctrlKey :: bool
  metaKey :: bool

text \<open>\<open>Math.atan2(y, x)\<close>, in radians within \<open>(-\<pi>, \<pi>]\<close>.\<close>

definition atan2 :: "real \<Rightarrow> real \<Rightarrow> real" where
  "atan2 y x =
     (if 0 < x then arctan (y / x)
      else if x < 0 then (if 0 \<le> y then arctan (y / x) + pi else arctan (y / x) - pi)
      else if 0 < y then pi / 2
      else if y < 0 then - (pi / 2)
      else 0)"

text \<open>\<open>Math.atan2(y - centerY, x - centerX) * 180 / Math.PI\<close>: the direction of the
  pointer \<open>(x, y)\<close> seen from the centre, in degrees.\<close>

definition angle_deg :: "real \<Rightarrow> real \<Rightarrow> real \<Rightarrow> real \<Rightarrow> real" where
  "angle_deg cx cy x y = atan2 (y - cy) (x - cx) * 180 / pi"

text \<open>The remainder operator \<open>a % b\<close> on numbers: the quotient is truncated towards zero,
  so the result has the sign of \<open>a\<close>.\<close>

definition js_rem :: "real \<Rightarrow> real \<Rightarrow> real" where
  "js_rem a b = a - b * of_int (if a / b < 0 then \<lceil>a / b\<rceil> else \<lfloor>a / b\<rfloor>)"

text \<open>\<open>v || d\<close> on a number: \<open>0\<close> is falsy.\<close>

definition num_or :: "real \<Rightarrow> real \<Rightarrow> real" where
  "num_or v d = (if v = 0 then d else v)"

text \<open>\<open>bbox?.height || 100\<close> and \<open>bbox?.width || 100\<close>.\<close>

definition bbox_height_or :: "box option \<Rightarrow> real" where
  "bbox_height_or b = (case b of None \<Rightarrow> 100 | Some bb \<Rightarrow> num_or (box_height bb) 100)"

definition bbox_width_or :: "box option \<Rightarrow> real" where
  "bbox_width_or b = (case b of None \<Rightarrow> 100 | Some bb \<Rightarrow> num_or (box_width bb) 100)"

text \<open>\<open>type.includes('n')\<close> for a one-character needle.\<close>

definition includes_char :: "string \<Rightarrow> char \<Rightarrow> bool" where
  "includes_char s c \<longleftrightarrow> c \<in> set s"

text \<open>The transform \<open>handleMove\<close> computes for one mouse-move event (\<open>newTransform\<close>).\<close>

definition handleMove_transform :: "gesture \<Rightarrow> real \<Rightarrow> box option \<Rightarrow> mouse_event \<Rightarrow> transform" where
  "handleMove_transform g zoom bbox ev =
     (let dx = (clientX ev - startX g) / zoom;
          dy = (clientY ev - startY g) / zoom;
          st = startTransform g
      in if handle g = ''rotate'' then
           (let currentAngle = angle_deg (boxCenterX g) (boxCenterY g) (clientX ev) (clientY ev);
                startAngleVal = angle_deg (boxCenterX g) (boxCenterY g) (startX g) (startY g);
                deltaRotation = currentAngle - startAngleVal
            in st\<lparr>rotate := js_rem (rotate st + deltaRotation + 90) 360\<rparr>)
         else
           (let isSkew = (ctrlKey ev \<or> metaKey ev);
                t1 = (if includes_char (handle g) CHR ''n'' then
                        (if isSkew then st\<lparr>skewX := skewX st + dx * 0.5\<rparr>
                         else st\<lparr>scaleY := scaleY st - (dy / bbox_height_or bbox) * 2\<rparr>)
                      else st);
                t2 = (if includes_char (handle g) CHR ''s'' then
                        (if isSkew then t1\<lparr>skewX := skewX st - dx * 0.5\<rparr>
                         else t1\<lparr>scaleY := scaleY st + (dy / bbox_height_or bbox) * 2\<rparr>)
                      else t1);
                t3 = (if includes_char (handle g) CHR ''w'' then
                        (if isSkew then t2\<lparr>skewY := skewY st + dy * 0.5\<rparr>
                         else t2\<lparr>scaleX := scaleX st - (dx / bbox_width_or bbox) * 2\<rparr>)
                      else t2);
                t4 = (if includes_char (handle g) CHR ''e'' then
                        (if isSkew then t3\<lparr>skewY := skewY st - dy * 0.5\<rparr>
                         else t3\<lparr>scaleX := scaleX st + (dx / bbox_width_or bbox) * 2\<rparr>)
                      else t3)
            in t4))"

text \<open>The rotation the specification describes: start rotation plus the angular
  difference, brought into \<open>[0, 360)\<close>.\<close>

definition normalize360 :: "real \<Rightarrow> real" where
  "normalize360 a = a - 360 * of_int \<lfloor>a / 360\<rfloor>"

definition spec_rotation :: "gesture \<Rightarrow> mouse_event \<Rightarrow> real" where
  "spec_rotation g ev =
     normalize360 (rotate (startTransform g)
       + (angle_deg (boxCenterX g) (boxCenterY g) (clientX ev) (clientY ev)
          - angle_deg (boxCenterX g) (boxCenterY g) (startX g) (startY g)))"

subsection \<open>Lemmas on the remainder\<close>

lemma js_rem_nonneg:
  assumes "0 < b" "0 \<le> a"
  shows "0 \<le> js_rem a b \<and> js_rem a b < b"
proof -
  have q: "\<not> a / b < 0" using assms by (simp add: not_less)
  have ab: "b * (a / b) = a" using assms(1) by simp
  have lo: "of_int \<lfloor>a / b\<rfloor> \<le> a / b" by simp
  have hi: "a / b < of_int \<lfloor>a / b\<rfloor> + 1" by linarith
  have "b * of_int \<lfloor>a / b\<rfloor> \<le> b * (a / b)"
    using lo assms(1) by (simp only: mult_le_cancel_left_pos)
  moreover have "b * (a / b) < b * (of_int \<lfloor>a / b\<rfloor> + 1)"
    using hi assms(1) by (simp only: mult_less_cancel_left_pos)
  ultimately show ?thesis using q ab assms(1) by (simp add: js_rem_def algebra_simps)
qed

lemma js_rem_neg:
  assumes "0 < b" "a < 0"
  shows "- b < js_rem a b \<and> js_rem a b \<le> 0"
proof -
  have q: "a / b < 0" using assms by (simp add: divide_neg_pos)
  have ab: "b * (a / b) = a" using assms(1) by simp
  have lo: "a / b \<le> of_int \<lceil>a / b\<rceil>" by simp
  have hi: "of_int \<lceil>a / b\<rceil> - 1 < a / b" by linarith
  have "b * (a / b) \<le> b * of_int \<lceil>a / b\<rceil>"
    using lo assms(1) by (simp only: mult_le_cancel_left_pos)
  moreover have "b * (of_int \<lceil>a / b\<rceil> - 1) < b * (a / b)"
    using hi assms(1) by (simp only: mult_less_cancel_left_pos)
  ultimately show ?thesis using q ab assms(1) by (simp add: js_rem_def algebra_simps)
qed

lemma js_rem_congruent: "\<exists>k::int. js_rem a b = a - b * of_int k"
  unfolding js_rem_def by blast

lemma js_rem_small:
  assumes "0 < b" "\<bar>a\<bar> < b"
  shows "js_rem a b = a"
proof (cases "a / b < 0")
  case True
  have "- 1 < a / b" using assms by (simp add: pos_less_divide_eq)
  then have "\<lceil>a / b\<rceil> = 0" using True by (simp add: ceiling_eq_iff)
  then show ?thesis using True by (simp add: js_rem_def)
next
  case False
  have "a / b < 1" using assms by (simp add: pos_divide_less_eq)
  then have "\<lfloor>a / b\<rfloor> = 0" using False by (simp add: floor_eq_iff)
  then show ?thesis using False by (simp add: js_rem_def)
qed

lemma handleMove_rotate:
  "handle g = ''rotate'' \<Longrightarrow>
   handleMove_transform g zoom bbox ev =
     (startTransform g)\<lparr>rotate :=
        js_rem (rotate (startTransform g)
                + (angle_deg (boxCenterX g) (boxCenterY g) (clientX ev) (clientY ev)
                   - angle_deg (boxCenterX g) (boxCenterY g) (startX g) (startY g))
                + 90) 360\<rparr>"
  by (simp add: handleMove_transform_def Let_def)

text \<open>The angular difference between the pointer's current direction from the box centre
  and its starting direction (\<open>deltaRotation\<close>).\<close>

definition pointer_delta :: "gesture \<Rightarrow> mouse_event \<Rightarrow> real" where
  "pointer_delta g ev =
     angle_deg (boxCenterX g) (boxCenterY g) (clientX ev) (clientY ev)
     - angle_deg (boxCenterX g) (boxCenterY g) (startX g) (startY g)"

text \<open>A rotate gesture that starts on the handle above a box centred at \<open>(100, 100)\<close>,
  and mouse events at the start position and to the right of the centre.\<close>

definition rotate_gesture :: "real \<Rightarrow> gesture" where
  "rotate_gesture r =
     \<lparr>handle = ''rotate'', startX = 100, startY = 50,
      startTransform = initial_transform\<lparr>rotate := r\<rparr>,
      boxCenterX = 100, boxCenterY = 100\<rparr>"

definition event_at :: "real \<Rightarrow> real \<Rightarrow> mouse_event" where
  "event_at x y = \<lparr>clientX = x, clientY = y, ctrlKey = False, metaKey = False\<rparr>"

lemma pointer_delta_no_movement: "pointer_delta (rotate_gesture r) (event_at 100 50) = 0"
  by (simp add: pointer_delta_def rotate_gesture_def event_at_def)

lemma pointer_delta_quarter_turn: "pointer_delta (rotate_gesture r) (event_at 150 100) = 90"
  by (simp add: pointer_delta_def rotate_gesture_def event_at_def angle_deg_def atan2_def)

subsection \<open>Claim on the rotate handle\<close>

text \<open>
  Claim C5, as far as the code carries it.  For the rotate handle, the rotation written
  during the drag is the start rotation plus the angular difference of the pointer
  directions plus the fixed offset \<open>90\<close> (``+90 offset for top handle''), reduced by
  \<open>% 360\<close>: it differs from that sum by a multiple of \<open>360\<close>, it lies in \<open>[0, 360)\<close>
  whenever the sum is not negative, and the other four channels keep their start
  values.
\<close>

theorem rotate_handle_live_rotation:
  assumes "handle g = ''rotate''"
  shows "(\<exists>k::int. rotate (handleMove_transform g zoom bbox ev) =
            rotate (startTransform g) + pointer_delta g ev + 90 - 360 * of_int k)
       \<and> (0 \<le> rotate (startTransform g) + pointer_delta g ev + 90 \<longrightarrow>
            0 \<le> rotate (handleMove_transform g zoom bbox ev)
            \<and> rotate (handleMove_transform g zoom bbox ev) < 360)
       \<and> scaleX (handleMove_transform g zoom bbox ev) = scaleX (startTransform g)
       \<and> scaleY (handleMove_transform g zoom bbox ev) = scaleY (startTransform g)
       \<and> skewX (handleMove_transform g zoom bbox ev) = skewX (startTransform g)
       \<and> skewY (handleMove_transform g zoom bbox ev) = skewY (startTransform g)"
proof -
  let ?total = "rotate (startTransform g) + pointer_delta g ev + 90"
  have r: "rotate (handleMove_transform g zoom bbox ev) = js_rem ?total 360"
    using assms by (simp add: handleMove_rotate pointer_delta_def)
  have c: "\<exists>k::int. js_rem ?total 360 = ?total - 360 * of_int k"
    by (rule js_rem_congruent)
  have b: "0 \<le> ?total \<longrightarrow> 0 \<le> js_rem ?total 360 \<and> js_rem ?total 360 < 360"
    using js_rem_nonneg [of 360 ?total] by simp
  have rest: "scaleX (handleMove_transform g zoom bbox ev) = scaleX (startTransform g)"
    "scaleY (handleMove_transform g zoom bbox ev) = scaleY (startTransform g)"
    "skewX (handleMove_transform g zoom bbox ev) = skewX (startTransform g)"
    "skewY (handleMove_transform g zoom bbox ev) = skewY (startTransform g)"
    using assms by (simp_all add: handleMove_rotate)
  from c b rest show ?thesis unfolding r by simp
qed

theorem rotate_handle_live_rotation_witness:
  "rotate (startTransform (rotate_gesture 30)) + pointer_delta (rotate_gesture 30) (event_at 150 100) + 90 = 210
   \<and> 0 \<le> rotate (handleMove_transform (rotate_gesture 30) 1 None (event_at 150 100))
   \<and> rotate (handleMove_transform (rotate_gesture 30) 1 None (event_at 150 100)) < 360"
proof -
  have h: "handle (rotate_gesture 30) = ''rotate''"
    by (simp add: rotate_gesture_def)
  have t: "rotate (startTransform (rotate_gesture 30))
      + pointer_delta (rotate_gesture 30) (event_at 150 100) + 90 = 210"
    by (simp add: pointer_delta_quarter_turn) (simp add: rotate_gesture_def)
  from rotate_handle_live_rotation [OF h, of 1 None "event_at 150 100"] t
  show ?thesis by simp
qed

text \<open>
  Claim C5 as stated has no offset and promises a value in \<open>[0, 360)\<close>.  With no
  pointer movement at all the specification's rotation for a start rotation of \<open>0\<close> is
  \<open>0\<close>, and the code writes \<open>90\<close>; from a start rotation of \<open>-120\<close> the code writes
  \<open>-30\<close>, which is below \<open>0\<close>.
\<close>

theorem rotate_handle_counterexample:
  "spec_rotation (rotate_gesture 0) (event_at 100 50) = 0
   \<and> rotate (handleMove_transform (rotate_gesture 0) 1 None (event_at 100 50)) = 90
   \<and> rotate (handleMove_transform (rotate_gesture (- 120)) 1 None (event_at 100 50)) = - 30"
proof -
  have h: "handle (rotate_gesture r) = ''rotate''" for r
    by (simp add: rotate_gesture_def)
  have d: "angle_deg (boxCenterX (rotate_gesture r)) (boxCenterY (rotate_gesture r))
             (clientX (event_at 100 50)) (clientY (event_at 100 50))
           - angle_deg (boxCenterX (rotate_gesture r)) (boxCenterY (rotate_gesture r))
             (startX (rotate_gesture r)) (startY (rotate_gesture r)) = 0" for r
    using pointer_delta_no_movement [of r] by (simp add: pointer_delta_def)
  have s: "rotate (startTransform (rotate_gesture r)) = r" for r
    by (simp add: rotate_gesture_def)
  have a: "spec_rotation (rotate_gesture 0) (event_at 100 50) = 0"
    by (simp add: spec_rotation_def d s normalize360_def)
  have b: "rotate (handleMove_transform (rotate_gesture 0) 1 None (event_at 100 50)) = 90"
    by (simp add: handleMove_rotate [OF h] d s js_rem_small)
  have c: "rotate (handleMove_transform (rotate_gesture (- 120)) 1 None (event_at 100 50)) = - 30"
    by (simp add: handleMove_rotate [OF h] d s js_rem_small)
  from a b c show ?thesis by simp
qed

section \<open>Strings\<close>

text \<open>
  Strings are lists of characters.  The whitespace class \<open>\s\<close> of JavaScript's regular
  expressions and of \<open>trim\<close> is restricted to its ASCII members.
\<close>

definition is_space :: "char \<Rightarrow> bool" where
  "is_space c \<longleftrightarrow> c \<in> {CHR '' '', CHR 0x09, CHR 0x0A, CHR 0x0B, CHR 0x0C, CHR 0x0D}"

definition trim :: "string \<Rightarrow> string" where
  "trim s = rev (dropWhile is_space (rev (dropWhile is_space s)))"

text \<open>\<open>s.startsWith(p)\<close> and \<open>s.includes(sub)\<close>.\<close>

definition starts_with :: "string \<Rightarrow> string \<Rightarrow> bool" where
  "starts_with s p \<longleftrightarrow> take (length p) s = p"

fun js_includes :: "string \<Rightarrow> string \<Rightarrow> bool" where
  "js_includes [] sub = (sub = [])"
| "js_includes (c # cs) sub = (starts_with (c # cs) sub \<or> js_includes cs sub)"

text \<open>\<open>s.split(re)\<close> for a regular expression \<open>[...]+\<close> over a character class \<open>sep\<close>:
  every maximal run of separators ends a piece, so a leading or trailing run gives an
  empty first or last piece.  \<open>cur\<close> is the piece being read, reversed.\<close>

fun split_runs :: "(char \<Rightarrow> bool) \<Rightarrow> string \<Rightarrow> bool \<Rightarrow> string \<Rightarrow> string list" where
  "split_runs sep cur in_sep [] = [rev cur]"
| "split_runs sep cur in_sep (c # cs) =
     (if sep c then (if in_sep then split_runs sep cur True cs
                     else rev cur # split_runs sep [] True cs)
      else split_runs sep (c # cur) False cs)"

text \<open>\<open>s.split(/[\s,]+/)\<close>.\<close>

definition split_ws_comma :: "string \<Rightarrow> string list" where
  "split_ws_comma s = split_runs (\<lambda>c. is_space c \<or> c = CHR '','') [] False s"

text \<open>\<open>s.split(' ')\<close>: every single space separates.\<close>

fun split_char :: "char \<Rightarrow> string \<Rightarrow> string \<Rightarrow> string list" where
  "split_char d cur [] = [rev cur]"
| "split_char d cur (c # cs) =
     (if c = d then rev cur # split_char d [] cs else split_char d (c # cur) cs)"

definition split_space :: "string \<Rightarrow> string list" where
  "split_space s = split_char CHR '' '' [] s"

text \<open>\<open>xs.join(sep)\<close>.\<close>

fun join_with :: "string \<Rightarrow> string list \<Rightarrow> string" where
  "join_with sep [] = []"
| "join_with sep [x] = x"
| "join_with sep (x # y # ys) = x @ sep @ join_with sep (y # ys)"

text \<open>The decimal digits of a natural number: template literals and \<open>toString\<close> on the
  non-negative integers the code formats (indices, \<open>Date.now()\<close>).\<close>

definition digit_char :: "nat \<Rightarrow> char" where
  "digit_char d = ''0123456789'' ! d"

fun show_nat :: "nat \<Rightarrow> string" where
  "show_nat n = (if n < 10 then [digit_char n] else show_nat (n div 10) @ [digit_char (n mod 10)])"


text \<open>\<open>s.toLowerCase()\<close> on ASCII letters.\<close>

definition lower_char :: "char \<Rightarrow> char" where
  "lower_char c =
     (case map_of (zip ''ABCDEFGHIJKLMNOPQRSTUVWXYZ'' ''abcdefghijklmnopqrstuvwxyz'') c of
        Some l \<Rightarrow> l | None \<Rightarrow> c)"

definition toLowerCase :: "string \<Rightarrow> string" where
  "toLowerCase s = map lower_char s"

text \<open>\<open>s.replace(/NAME:[^;]+;?/g, '')\<close>: every occurrence of \<open>NAME:\<close> that is followed by at
  least one character other than \<open>;\<close> is removed together with the characters up to the
  next \<open>;\<close> and that \<open>;\<close> itself.  The scan takes the text as it stands: \<open>transform:\<close> is
  also found at the end of \<open>text-transform:\<close>.\<close>

function remove_decl :: "string \<Rightarrow> string \<Rightarrow> string" where
  "remove_decl name [] = []"
| "remove_decl name (c # cs) =
     (let body = drop (length name + 1) (c # cs)
      in if starts_with (c # cs) (name @ '':'') \<and> takeWhile (\<lambda>x. x \<noteq> CHR '';'') body \<noteq> []
         then remove_decl name (tl (dropWhile (\<lambda>x. x \<noteq> CHR '';'') body))
         else c # remove_decl name cs)"
  by pat_completeness auto
termination
proof (relation "measure (\<lambda>(name, s). length s)")
  show "wf (measure (\<lambda>(name, s). length s))" by simp
next
  fix name :: string and c :: char and cs body
  assume b: "body = drop (length name + 1) (c # cs)"
  have "length (dropWhile (\<lambda>x. x \<noteq> CHR '';'') body) \<le> length body"
    by (rule length_dropWhile_le)
  moreover have "length body \<le> length cs" using b by simp
  ultimately show "((name, tl (dropWhile (\<lambda>x. x \<noteq> CHR '';'') body)), name, c # cs)
      \<in> measure (\<lambda>(name, s). length s)"
    by simp
next
  fix name :: string and c :: char and cs
  show "((name, cs), name, c # cs) \<in> measure (\<lambda>(name, s). length s)" by simp
qed

section \<open>The document tree\<close>

text \<open>
  The parsed document is the tree of its \<open>svg\<close> element, which is taken to be the root
  element of the document: an element has a tag name, its attributes in document order
  and its child nodes; every other node (text, comment) is character data.  A node inside
  the tree is addressed by its path, the list of child indices leading to it from the
  root.
\<close>

type_synonym attrs = "(string \<times> string) list"

datatype node = Element string attrs "node list" | CharData string

definition getAttribute :: "attrs \<Rightarrow> string \<Rightarrow> string option" where
  "getAttribute a k = map_of a k"

text \<open>\<open>setAttribute\<close> overwrites in place or appends a new attribute at the end.\<close>

definition setAttribute :: "string \<Rightarrow> string \<Rightarrow> attrs \<Rightarrow> attrs" where
  "setAttribute k v a = AList.update k v a"

definition removeAttribute :: "string \<Rightarrow> attrs \<Rightarrow> attrs" where
  "removeAttribute k a = AList.delete k a"

text \<open>The attribute \<open>k\<close> becomes \<open>v\<close>, or is absent for \<open>None\<close>.\<close>

definition putAttribute :: "string \<Rightarrow> string option \<Rightarrow> attrs \<Rightarrow> attrs" where
  "putAttribute k v a = (case v of None \<Rightarrow> removeAttribute k a | Some x \<Rightarrow> setAttribute k x a)"

text \<open>\<open>getAttribute(k) || d\<close>: absent and empty are falsy.\<close>

definition attr_or :: "attrs \<Rightarrow> string \<Rightarrow> string \<Rightarrow> string" where
  "attr_or a k d = (case getAttribute a k of None \<Rightarrow> d | Some v \<Rightarrow> if v = [] then d else v)"

definition is_element :: "node \<Rightarrow> bool" where
  "is_element n = (case n of Element t a cs \<Rightarrow> True | CharData s \<Rightarrow> False)"

text \<open>The first element in document order (the node itself first, then its children from
  left to right) whose tag and attributes satisfy \<open>P\<close>.\<close>

fun find_path :: "(string \<Rightarrow> attrs \<Rightarrow> bool) \<Rightarrow> node \<Rightarrow> nat list option"
  and find_in_children :: "(string \<Rightarrow> attrs \<Rightarrow> bool) \<Rightarrow> nat \<Rightarrow> node list \<Rightarrow> nat list option" where
  "find_path P (CharData s) = None"
| "find_path P (Element t a cs) = (if P t a then Some [] else find_in_children P 0 cs)"
| "find_in_children P i [] = None"
| "find_in_children P i (c # cs) =
     (case find_path P c of Some p \<Rightarrow> Some (i # p) | None \<Rightarrow> find_in_children P (Suc i) cs)"

fun get_at :: "node \<Rightarrow> nat list \<Rightarrow> node option" where
  "get_at n [] = Some n"
| "get_at (Element t a cs) (i # p) = (if i < length cs then get_at (cs ! i) p else None)"
| "get_at (CharData s) (i # p) = None"

fun update_at :: "nat list \<Rightarrow> (node \<Rightarrow> node) \<Rightarrow> node \<Rightarrow> node" where
  "update_at [] f n = f n"
| "update_at (i # p) f (Element t a cs) =
     (if i < length cs then Element t a (cs[i := update_at p f (cs ! i)]) else Element t a cs)"
| "update_at (i # p) f (CharData s) = CharData s"

definition has_id :: "string \<Rightarrow> string \<Rightarrow> attrs \<Rightarrow> bool" where
  "has_id i t a \<longleftrightarrow> getAttribute a ''id'' = Some i"

text \<open>\<open>doc.getElementById(i)\<close>: no element has the empty string as its id.\<close>

definition getElementById :: "node \<Rightarrow> string \<Rightarrow> nat list option" where
  "getElementById doc i = (if i = [] then None else find_path (has_id i) doc)"

text \<open>\<open>svg.querySelector(tag)\<close>: the first descendant with that tag; the element itself
  is not a candidate.\<close>

definition querySelector_tag :: "node \<Rightarrow> string \<Rightarrow> nat list option" where
  "querySelector_tag n tg =
     (case n of Element t a cs \<Rightarrow> find_in_children (\<lambda>t' a'. t' = tg) 0 cs | CharData s \<Rightarrow> None)"

text \<open>Changes to one element: its attributes, its children.\<close>

definition map_attrs :: "(attrs \<Rightarrow> attrs) \<Rightarrow> node \<Rightarrow> node" where
  "map_attrs h n = (case n of Element t a cs \<Rightarrow> Element t (h a) cs | CharData s \<Rightarrow> CharData s)"

definition map_children :: "(node list \<Rightarrow> node list) \<Rightarrow> node \<Rightarrow> node" where
  "map_children h n = (case n of Element t a cs \<Rightarrow> Element t a (h cs) | CharData s \<Rightarrow> CharData s)"

text \<open>\<open>parent.appendChild(c)\<close> and \<open>parent.prepend(c)\<close> for a new node \<open>c\<close>.\<close>

definition appendChild :: "node \<Rightarrow> node \<Rightarrow> node" where
  "appendChild c n = map_children (\<lambda>cs. cs @ [c]) n"

definition prepend :: "node \<Rightarrow> node \<Rightarrow> node" where
  "prepend c n = map_children (\<lambda>cs. c # cs) n"


subsection \<open>Namespaces and style objects\<close>

text \<open>
  The XML parser puts an element into the default namespace in scope where it stands: the
  value of the nearest \<open>xmlns\<close> attribute on the element itself or on an ancestor, and no
  namespace where there is no such attribute or where its value is empty (element names
  with a prefix are not modelled).  The callbacks of the panel neither write \<open>xmlns\<close>
  attributes nor move an element under another parent, so the namespace of a parsed
  element can be read off the tree at any moment of a handler.  Only the elements of the
  SVG, XHTML and MathML namespaces have a \<open>style\<close> object; on every other element
  \<open>el.style\<close> is \<open>undefined\<close>, and an access to a property of it throws a \<open>TypeError\<close>.
  The elements that the callbacks create are SVG elements wherever they are put; no
  callback asks for the \<open>style\<close> of an element it has created.
\<close>

definition default_namespace :: "string option \<Rightarrow> attrs \<Rightarrow> string option" where
  "default_namespace inherited a =
     (case getAttribute a ''xmlns'' of
        None \<Rightarrow> inherited
      | Some v \<Rightarrow> if v = [] then None else Some v)"

text \<open>The namespace of the element at a path, in a tree whose root inherits \<open>ns\<close>.\<close>

fun namespace_at :: "string option \<Rightarrow> node \<Rightarrow> nat list \<Rightarrow> string option" where
  "namespace_at ns (CharData s) p = None"
| "namespace_at ns (Element t a cs) [] = default_namespace ns a"
| "namespace_at ns (Element t a cs) (i # p) =
     (if i < length cs then namespace_at (default_namespace ns a) (cs ! i) p else None)"

definition has_style_object :: "string option \<Rightarrow> bool" where
  "has_style_object ns \<longleftrightarrow>
     ns = Some ''http://www.w3.org/2000/svg'' \<or> ns = Some ''http://www.w3.org/1999/xhtml''
     \<or> ns = Some ''http://www.w3.org/1998/Math/MathML''"

subsection \<open>Lemmas on attributes\<close>

lemma getAttribute_setAttribute:
  "getAttribute (setAttribute k v a) k' = (if k' = k then Some v else getAttribute a k')"
  by (simp add: getAttribute_def setAttribute_def update_conv')

lemma getAttribute_removeAttribute:
  "getAttribute (removeAttribute k a) k' = (if k' = k then None else getAttribute a k')"
  by (simp add: getAttribute_def removeAttribute_def delete_conv')

lemma getAttribute_putAttribute:
  "getAttribute (putAttribute k v a) k' = (if k' = k then v else getAttribute a k')"
  by (cases v) (simp_all add: putAttribute_def getAttribute_setAttribute getAttribute_removeAttribute)

lemma setAttribute_same:
  "getAttribute a k = Some v \<Longrightarrow> setAttribute k v a = a"
  unfolding getAttribute_def setAttribute_def
  by (induction a) (auto split: if_splits)

subsection \<open>Lemmas on paths\<close>




lemma update_at_invalid: "get_at t q = None \<Longrightarrow> update_at q f t = t"
proof (induction q arbitrary: t)
  case Nil
  then show ?case by simp
next
  case (Cons i q)
  then show ?case by (cases t) (auto split: if_splits)
qed






section \<open>The platform\<close>

text \<open>
  The browser functions the code calls are parameters of the model:
  \<^item> \<open>parseFromString\<close>: \<open>DOMParser.parseFromString(text, 'image/svg+xml')\<close> followed by
    \<open>querySelector('svg')\<close>, the \<open>svg\<close> element being the root element of the document;
    \<open>None\<close> when the text does not parse or has no \<open>svg\<close> element;
  \<^item> \<open>outerHTML\<close>: the serialization of the \<open>svg\<close> element;
  \<^item> \<open>parseFloat\<close>, \<open>Number\<close> and \<open>parseInt(_, 16)\<close>, with \<open>None\<close> for \<open>NaN\<close>;
  \<^item> \<open>num_toString\<close>: a number in a template literal or under \<open>toString()\<close>;
  \<^item> \<open>toFixed\<close>: \<open>x.toFixed(digits)\<close>;
  \<^item> \<open>style_setProperty\<close> and \<open>style_removeProperty\<close>: \<open>el.style.setProperty(name, value)\<close>
    and \<open>el.style.removeProperty(name)\<close>, as functions from the \<open>style\<close> attribute before
    the call to the \<open>style\<close> attribute after it (\<open>None\<close>: no such attribute).
\<close>

record platform =
  parseFromString :: "string \<Rightarrow> node option"
  outerHTML :: "node \<Rightarrow> string"
  parseFloat :: "string \<Rightarrow> real option"
  js_Number :: "string \<Rightarrow> real option"
  parseInt16 :: "string \<Rightarrow> real option"
  num_toString :: "real option \<Rightarrow> string"
  toFixed :: "nat \<Rightarrow> real \<Rightarrow> string"
  style_setProperty :: "string \<Rightarrow> string \<Rightarrow> string option \<Rightarrow> string option"
  style_removeProperty :: "string \<Rightarrow> string option \<Rightarrow> string option"

section \<open>Scene normalizer (SvgPreview.tsx: normalizeSvg)\<close>

text \<open>A string or \<open>null\<close> used as a condition: \<open>null\<close> and the empty string are falsy.\<close>

definition truthy_str :: "string option \<Rightarrow> bool" where
  "truthy_str v = (case v of None \<Rightarrow> False | Some s \<Rightarrow> s \<noteq> [])"

definition str_or_empty :: "string option \<Rightarrow> string" where
  "str_or_empty v = (case v of None \<Rightarrow> [] | Some s \<Rightarrow> s)"

definition has_percent :: "string option \<Rightarrow> bool" where
  "has_percent v = (CHR ''%'' \<in> set (str_or_empty v))"

text \<open>Step 1, ``Ensure Namespace''.\<close>

definition ensure_xmlns :: "attrs \<Rightarrow> attrs" where
  "ensure_xmlns a =
     (if truthy_str (getAttribute a ''xmlns'') then a
      else setAttribute ''xmlns'' ''http://www.w3.org/2000/svg'' a)"

text \<open>Step 2, ``Ensure Dimensions & ViewBox''.  A width or height of \<open>100%\<close> counts as
  missing; a missing \<open>viewBox\<close> is made from a width and a height without \<open>%\<close>, or is
  \<open>0 0 512 512\<close>; width and height are then set from the third and fourth number of the
  \<open>viewBox\<close> where they are missing or a percentage.\<close>

definition not_full :: "string option \<Rightarrow> string option" where
  "not_full v = (if v = Some ''100%'' then None else v)"

definition ensure_viewBox :: "platform \<Rightarrow> attrs \<Rightarrow> attrs" where
  "ensure_viewBox pf a =
     (let width = not_full (getAttribute a ''width'');
          height = not_full (getAttribute a ''height'')
      in if truthy_str (getAttribute a ''viewBox'') then a
         else if truthy_str width \<and> truthy_str height \<and> \<not> has_percent width \<and> \<not> has_percent height
         then setAttribute ''viewBox''
                (''0 0 '' @ num_toString pf (parseFloat pf (str_or_empty width)) @ '' ''
                   @ num_toString pf (parseFloat pf (str_or_empty height))) a
         else setAttribute ''viewBox'' ''0 0 512 512'' a)"

definition ensure_size :: "platform \<Rightarrow> string option \<Rightarrow> string option \<Rightarrow> attrs \<Rightarrow> attrs" where
  "ensure_size pf width height a =
     (let vbParts = map (parseFloat pf) (split_ws_comma (str_or_empty (getAttribute a ''viewBox'')))
      in if length vbParts \<ge> 4 then
           (let a2 = (if \<not> truthy_str width \<or> has_percent width
                      then setAttribute ''width'' (num_toString pf (vbParts ! 2)) a else a);
                a3 = (if \<not> truthy_str height \<or> has_percent height
                      then setAttribute ''height'' (num_toString pf (vbParts ! 3)) a2 else a2)
            in a3)
         else a)"

definition ensure_dimensions :: "platform \<Rightarrow> attrs \<Rightarrow> attrs" where
  "ensure_dimensions pf a =
     ensure_size pf (not_full (getAttribute a ''width'')) (not_full (getAttribute a ''height''))
       (ensure_viewBox pf a)"

text \<open>Step 3, ``Ensure Unique IDs for Editor'': the descendants matching the selector
  \<open>g, path, rect, circle, ellipse, text, image, line, polygon, polyline\<close>, numbered in
  document order; one without an id gets \<open>tag_index_suffix\<close>, the suffix being the last
  five base-36 digits of \<open>Date.now()\<close> at that moment (\<open>clock index\<close>).\<close>

definition editable_tags :: "string list" where
  "editable_tags = [''g'', ''path'', ''rect'', ''circle'', ''ellipse'', ''text'', ''image'',
                    ''line'', ''polygon'', ''polyline'']"

definition fresh_id :: "(nat \<Rightarrow> string) \<Rightarrow> string \<Rightarrow> nat \<Rightarrow> string" where
  "fresh_id clock t index = toLowerCase t @ ''_'' @ show_nat index @ ''_'' @ clock index"

fun ensure_ids :: "(nat \<Rightarrow> string) \<Rightarrow> nat \<Rightarrow> node \<Rightarrow> node \<times> nat"
  and ensure_ids_list :: "(nat \<Rightarrow> string) \<Rightarrow> nat \<Rightarrow> node list \<Rightarrow> node list \<times> nat" where
  "ensure_ids clock index (CharData s) = (CharData s, index)"
| "ensure_ids clock index (Element t a cs) =
     (if t \<in> set editable_tags then
        (let a' = (if truthy_str (getAttribute a ''id'') then a
                   else setAttribute ''id'' (fresh_id clock t index) a);
             r = ensure_ids_list clock (Suc index) cs
         in (Element t a' (fst r), snd r))
      else (let r = ensure_ids_list clock index cs in (Element t a (fst r), snd r)))"
| "ensure_ids_list clock index [] = ([], index)"
| "ensure_ids_list clock index (c # cs) =
     (let r = ensure_ids clock index c; rs = ensure_ids_list clock (snd r) cs
      in (fst r # fst rs, snd rs))"

definition normalize_tree :: "platform \<Rightarrow> (nat \<Rightarrow> string) \<Rightarrow> node \<Rightarrow> node" where
  "normalize_tree pf clock svg =
     (case svg of
        Element t a cs \<Rightarrow>
          Element t (ensure_dimensions pf (ensure_xmlns a)) (fst (ensure_ids_list clock 0 cs))
      | CharData s \<Rightarrow> CharData s)"

definition normalizeSvg :: "platform \<Rightarrow> (nat \<Rightarrow> string) \<Rightarrow> string \<Rightarrow> string" where
  "normalizeSvg pf clock svgString =
     (if svgString = [] then []
      else case parseFromString pf svgString of
             None \<Rightarrow> svgString
           | Some svg \<Rightarrow> outerHTML pf (normalize_tree pf clock svg))"

text \<open>Every element the editor lists has a non-empty id.\<close>

fun ids_present :: "node \<Rightarrow> bool" where
  "ids_present (CharData s) = True"
| "ids_present (Element t a cs) =
     ((t \<in> set editable_tags \<longrightarrow> truthy_str (getAttribute a ''id'')) \<and> (\<forall>c \<in> set cs. ids_present c))"

subsection \<open>Lemmas on normalization\<close>

lemma fresh_id_nonempty: "fresh_id clock t i \<noteq> []"
  by (simp add: fresh_id_def)

lemma ensure_ids_present:
  "ids_present (fst (ensure_ids clock i n))"
  "\<forall>c \<in> set (fst (ensure_ids_list clock i ns)). ids_present c"
  by (induction clock i n and clock i ns rule: ensure_ids_ensure_ids_list.induct)
     (simp_all add: Let_def getAttribute_setAttribute truthy_str_def fresh_id_nonempty)

lemma ensure_ids_fixed:
  "ids_present n \<Longrightarrow> fst (ensure_ids clock i n) = n"
  "\<forall>c \<in> set ns. ids_present c \<Longrightarrow> fst (ensure_ids_list clock i ns) = ns"
  by (induction clock i n and clock i ns rule: ensure_ids_ensure_ids_list.induct)
     (simp_all add: Let_def)

lemma ensure_ids_list_idem:
  "fst (ensure_ids_list clock2 j (fst (ensure_ids_list clock1 i ns))) = fst (ensure_ids_list clock1 i ns)"
  by (rule ensure_ids_fixed(2)) (rule ensure_ids_present(2))


lemma ensure_viewBox_other:
  "k \<noteq> ''viewBox'' \<Longrightarrow> getAttribute (ensure_viewBox pf a) k = getAttribute a k"
  by (simp add: ensure_viewBox_def Let_def getAttribute_setAttribute)

lemma ensure_viewBox_truthy: "truthy_str (getAttribute (ensure_viewBox pf a) ''viewBox'')"
  by (simp add: ensure_viewBox_def Let_def getAttribute_setAttribute truthy_str_def)

lemma ensure_viewBox_fixed:
  "truthy_str (getAttribute a ''viewBox'') \<Longrightarrow> ensure_viewBox pf a = a"
  by (simp add: ensure_viewBox_def Let_def)

lemma ensure_size_other:
  "k \<noteq> ''width'' \<Longrightarrow> k \<noteq> ''height'' \<Longrightarrow> getAttribute (ensure_size pf w h a) k = getAttribute a k"
  by (simp add: ensure_size_def Let_def getAttribute_setAttribute)

lemma not_full_percent:
  "\<not> has_percent (Some v) \<Longrightarrow> not_full (Some v) = Some v"
  by (auto simp: not_full_def has_percent_def str_or_empty_def)

lemma ensure_size_idem:
  assumes w: "w = not_full (getAttribute a ''width'')"
    and h: "h = not_full (getAttribute a ''height'')"
    and r: "r = ensure_size pf w h a"
  shows "ensure_size pf (not_full (getAttribute r ''width'')) (not_full (getAttribute r ''height'')) r = r"
proof -
  let ?parts = "map (parseFloat pf) (split_ws_comma (str_or_empty (getAttribute a ''viewBox'')))"
  have vb: "getAttribute r ''viewBox'' = getAttribute a ''viewBox''"
    unfolding r by (simp add: ensure_size_other)
  show ?thesis
  proof (cases "length ?parts \<ge> 4")
    case False
    then have "r = a" unfolding r by (simp add: ensure_size_def Let_def)
    then show ?thesis using False by (simp add: ensure_size_def Let_def)
  next
    case True
    let ?W = "num_toString pf (?parts ! 2)"
    let ?H = "num_toString pf (?parts ! 3)"
    let ?cw = "\<not> truthy_str w \<or> has_percent w"
    let ?ch = "\<not> truthy_str h \<or> has_percent h"
    have rw: "getAttribute r ''width'' = (if ?cw then Some ?W else getAttribute a ''width'')"
      unfolding r using True by (simp add: ensure_size_def Let_def getAttribute_setAttribute)
    have rh: "getAttribute r ''height'' = (if ?ch then Some ?H else getAttribute a ''height'')"
      unfolding r using True by (simp add: ensure_size_def Let_def getAttribute_setAttribute)
    let ?w' = "not_full (getAttribute r ''width'')"
    let ?h' = "not_full (getAttribute r ''height'')"
    have w_keep: "(\<not> truthy_str ?w' \<or> has_percent ?w') \<longrightarrow> getAttribute r ''width'' = Some ?W"
    proof (cases ?cw)
      case True
      then show ?thesis by (simp add: rw)
    next
      case False
      then have t: "truthy_str w" "\<not> has_percent w" by simp_all
      then obtain v where v: "w = Some v" by (cases w) (simp_all add: truthy_str_def)
      have "getAttribute a ''width'' = Some v"
        using w v by (auto simp: not_full_def split: if_splits)
      then have "?w' = Some v" using False rw t v by (simp add: not_full_percent)
      then show ?thesis using t v by simp
    qed
    have h_keep: "(\<not> truthy_str ?h' \<or> has_percent ?h') \<longrightarrow> getAttribute r ''height'' = Some ?H"
    proof (cases ?ch)
      case True
      then show ?thesis by (simp add: rh)
    next
      case False
      then have t: "truthy_str h" "\<not> has_percent h" by simp_all
      then obtain v where v: "h = Some v" by (cases h) (simp_all add: truthy_str_def)
      have "getAttribute a ''height'' = Some v"
        using h v by (auto simp: not_full_def split: if_splits)
      then have "?h' = Some v" using False rh t v by (simp add: not_full_percent)
      then show ?thesis using t v by simp
    qed
    have s1: "(if \<not> truthy_str ?w' \<or> has_percent ?w' then setAttribute ''width'' ?W r else r) = r"
      using w_keep by (simp add: setAttribute_same)
    have s2: "(if \<not> truthy_str ?h' \<or> has_percent ?h' then setAttribute ''height'' ?H r else r) = r"
      using h_keep by (simp add: setAttribute_same)
    show ?thesis
      using True s1 s2 by (simp add: ensure_size_def [of pf ?w' ?h' r] Let_def vb)
  qed
qed

lemma ensure_dimensions_idem:
  "ensure_dimensions pf (ensure_dimensions pf a) = ensure_dimensions pf a"
proof -
  let ?b = "ensure_viewBox pf a"
  let ?r = "ensure_dimensions pf a"
  have r: "?r = ensure_size pf (not_full (getAttribute ?b ''width'')) (not_full (getAttribute ?b ''height'')) ?b"
    by (simp add: ensure_dimensions_def ensure_viewBox_other)
  have "truthy_str (getAttribute ?r ''viewBox'')"
    by (simp add: ensure_dimensions_def ensure_size_other ensure_viewBox_truthy)
  then have fx: "ensure_viewBox pf ?r = ?r" by (rule ensure_viewBox_fixed)
  have "ensure_size pf (not_full (getAttribute ?r ''width'')) (not_full (getAttribute ?r ''height'')) ?r = ?r"
    by (rule ensure_size_idem [OF refl refl r])
  then show ?thesis
    by (simp add: ensure_dimensions_def [of pf ?r] fx)
qed

lemma ensure_dimensions_xmlns:
  "getAttribute (ensure_dimensions pf a) ''xmlns'' = getAttribute a ''xmlns''"
  by (simp add: ensure_dimensions_def ensure_size_other ensure_viewBox_other)

lemma ensure_xmlns_truthy: "truthy_str (getAttribute (ensure_xmlns a) ''xmlns'')"
  by (simp add: ensure_xmlns_def getAttribute_setAttribute truthy_str_def)

lemma normalize_attrs_idem:
  "ensure_dimensions pf (ensure_xmlns (ensure_dimensions pf (ensure_xmlns a))) =
   ensure_dimensions pf (ensure_xmlns a)"
proof -
  have "truthy_str (getAttribute (ensure_dimensions pf (ensure_xmlns a)) ''xmlns'')"
    by (simp add: ensure_dimensions_xmlns ensure_xmlns_truthy)
  then have "ensure_xmlns (ensure_dimensions pf (ensure_xmlns a)) = ensure_dimensions pf (ensure_xmlns a)"
    by (simp add: ensure_xmlns_def)
  then show ?thesis by (simp add: ensure_dimensions_idem)
qed

lemma normalize_tree_idem:
  "normalize_tree pf clock2 (normalize_tree pf clock1 t) = normalize_tree pf clock1 t"
  by (cases t) (simp_all add: normalize_tree_def normalize_attrs_idem ensure_ids_list_idem)


section \<open>A stand-in platform for worked examples\<close>

text \<open>
  The examples run the model on a small executable platform: a serializer without
  escaping, a parser that knows the serializations of a given list of documents, decimal
  numbers without exponents, integers as the only numbers printed, and inline styles as
  \<open>name: value;\<close> lists without shorthand expansion.
\<close>

fun xml_text :: "node \<Rightarrow> string" where
  "xml_text (CharData s) = s"
| "xml_text (Element t a cs) =
     ''<'' @ t @ concat (map (\<lambda>(k, v). '' '' @ k @ ''='' @ [CHR 0x22] @ v @ [CHR 0x22]) a)
       @ (if cs = [] then ''/>'' else ''>'' @ concat (map xml_text cs) @ ''</'' @ t @ ''>'')"

definition table_parser :: "node list \<Rightarrow> string \<Rightarrow> node option" where
  "table_parser docs s = map_of (map (\<lambda>d. (xml_text d, d)) docs) s"

definition is_digit :: "char \<Rightarrow> bool" where
  "is_digit c \<longleftrightarrow> c \<in> set ''0123456789''"

definition digit_val :: "char \<Rightarrow> nat" where
  "digit_val c = length (takeWhile (\<lambda>d. d \<noteq> c) ''0123456789'')"

definition digits_val :: "string \<Rightarrow> nat" where
  "digits_val ds = foldl (\<lambda>n c. 10 * n + digit_val c) 0 ds"

definition decimal_prefix :: "string \<Rightarrow> real option" where
  "decimal_prefix s =
     (let s1 = dropWhile is_space s;
          neg = (s1 \<noteq> [] \<and> hd s1 = CHR ''-'');
          s2 = (if s1 \<noteq> [] \<and> (hd s1 = CHR ''-'' \<or> hd s1 = CHR ''+'') then tl s1 else s1);
          ip = takeWhile is_digit s2;
          r = dropWhile is_digit s2;
          fp = (if r \<noteq> [] \<and> hd r = CHR ''.'' then takeWhile is_digit (tl r) else [])
      in if ip = [] \<and> fp = [] then None
         else Some ((if neg then - 1 else 1)
                    * (real (digits_val ip) + real (digits_val fp) / 10 ^ length fp)))"

definition hex_val :: "string \<Rightarrow> real option" where
  "hex_val s =
     (if s \<noteq> [] \<and> set s \<subseteq> set ''0123456789abcdef''
      then Some (real (foldl (\<lambda>n c. 16 * n + length (takeWhile (\<lambda>d. d \<noteq> c) ''0123456789abcdef'')) 0 s))
      else None)"

definition show_integer :: "real option \<Rightarrow> string" where
  "show_integer v =
     (case v of None \<Rightarrow> ''NaN''
      | Some r \<Rightarrow> (if r < 0 then ''-'' else []) @ show_nat (nat \<lfloor>\<bar>r\<bar>\<rfloor>))"

definition show_fixed :: "nat \<Rightarrow> real \<Rightarrow> string" where
  "show_fixed d r =
     (let n = nat \<lfloor>\<bar>r\<bar> * 10 ^ d + 1 / 2\<rfloor>;
          frac = show_nat (n mod 10 ^ d)
      in (if r < 0 \<and> 0 < n then ''-'' else []) @ show_nat (n div 10 ^ d)
         @ (if d = 0 then [] else ''.'' @ replicate (d - length frac) CHR ''0'' @ frac))"

definition css_decls :: "string \<Rightarrow> (string \<times> string) list" where
  "css_decls s =
     map (\<lambda>d. (trim (takeWhile (\<lambda>c. c \<noteq> CHR '':'') d), trim (drop 1 (dropWhile (\<lambda>c. c \<noteq> CHR '':'') d))))
       (filter (\<lambda>d. CHR '':'' \<in> set d) (split_char CHR '';'' [] s))"

definition css_text :: "(string \<times> string) list \<Rightarrow> string" where
  "css_text ds = join_with '' '' (map (\<lambda>(k, v). k @ '': '' @ v @ '';'') ds)"

definition css_removeProperty :: "string \<Rightarrow> string option \<Rightarrow> string option" where
  "css_removeProperty k st =
     (case st of None \<Rightarrow> None
      | Some s \<Rightarrow> if k \<in> fst ` set (css_decls s)
                  then Some (css_text (filter (\<lambda>d. fst d \<noteq> k) (css_decls s)))
                  else Some s)"

definition css_setProperty :: "string \<Rightarrow> string \<Rightarrow> string option \<Rightarrow> string option" where
  "css_setProperty k v st =
     (if v = [] then css_removeProperty k st
      else Some (css_text (AList.update k v (css_decls (str_or_empty st)))))"

definition stand_in :: "node list \<Rightarrow> platform" where
  "stand_in docs =
     \<lparr>parseFromString = table_parser docs,
      outerHTML = xml_text,
      parseFloat = decimal_prefix,
      js_Number = decimal_prefix,
      parseInt16 = hex_val,
      num_toString = show_integer,
      toFixed = show_fixed,
      style_setProperty = css_setProperty,
      style_removeProperty = css_removeProperty\<rparr>"

subsection \<open>Claim on normalization\<close>

text \<open>A document that declares the SVG namespace but has neither \<open>viewBox\<close> nor ids, and its
  normal form.\<close>

definition declared_doc :: node where
  "declared_doc =
     Element ''svg'' [(''xmlns'', ''http://www.w3.org/2000/svg''), (''width'', ''100''),
                      (''height'', ''50'')]
       [Element ''rect'' [(''x'', ''10''), (''y'', ''10'')] []]"

definition declared_normal_doc :: node where
  "declared_normal_doc =
     Element ''svg'' [(''xmlns'', ''http://www.w3.org/2000/svg''), (''width'', ''100''),
                      (''height'', ''50''), (''viewBox'', ''0 0 100 50'')]
       [Element ''rect'' [(''x'', ''10''), (''y'', ''10''), (''id'', ''rect_0_k3x9q'')] []]"

lemma normalize_declared_doc:
  "normalize_tree (stand_in docs) (\<lambda>i. ''k3x9q'') declared_doc = declared_normal_doc"
  by code_simp

text \<open>
  Claim C9, as far as the code carries it.  On the parsed tree the three steps of the
  normalization are idempotent, whatever the clock shows at either pass: after the first
  pass the namespace and the \<open>viewBox\<close> are present, width and height hold what the second
  pass would write, and every listed element has an id.  The step from text to tree and
  back is the browser's.  Normalizing the text that a normalization returned gives that
  text again, byte for byte, for every input for which the parser reads the serialization
  of the normalized tree back as that tree.
\<close>

theorem normalizeSvg_idempotent:
  assumes "\<forall>t. parseFromString pf s = Some t \<longrightarrow>
             parseFromString pf (outerHTML pf (normalize_tree pf clock1 t)) =
               Some (normalize_tree pf clock1 t)"
  shows "normalize_tree pf clock2 (normalize_tree pf clock1 t0) = normalize_tree pf clock1 t0
       \<and> normalizeSvg pf clock2 (normalizeSvg pf clock1 s) = normalizeSvg pf clock1 s"
proof (cases "s = []")
  case True
  then show ?thesis by (simp add: normalizeSvg_def normalize_tree_idem)
next
  case False
  show ?thesis
  proof (cases "parseFromString pf s")
    case None
    then show ?thesis using False by (simp add: normalizeSvg_def normalize_tree_idem)
  next
    case (Some t)
    let ?t' = "normalize_tree pf clock1 t"
    have first: "normalizeSvg pf clock1 s = outerHTML pf ?t'"
      using False Some by (simp add: normalizeSvg_def)
    have again: "parseFromString pf (outerHTML pf ?t') = Some ?t'"
      using assms Some by simp
    have "normalizeSvg pf clock2 (outerHTML pf ?t') = outerHTML pf ?t'"
    proof (cases "outerHTML pf ?t' = []")
      case True
      then show ?thesis by (simp add: normalizeSvg_def)
    next
      case False
      then show ?thesis
        by (simp add: normalizeSvg_def [of pf clock2] again normalize_tree_idem)
    qed
    then show ?thesis by (simp add: first normalize_tree_idem)
  qed
qed

theorem normalizeSvg_idempotent_witness:
  "parseFromString (stand_in [declared_doc, declared_normal_doc]) (xml_text declared_doc)
     = Some declared_doc
   \<and> parseFromString (stand_in [declared_doc, declared_normal_doc])
       (outerHTML (stand_in [declared_doc, declared_normal_doc])
          (normalize_tree (stand_in [declared_doc, declared_normal_doc]) (\<lambda>i. ''k3x9q'') declared_doc))
     = Some (normalize_tree (stand_in [declared_doc, declared_normal_doc]) (\<lambda>i. ''k3x9q'') declared_doc)
   \<and> normalizeSvg (stand_in [declared_doc, declared_normal_doc]) (\<lambda>i. ''k3x9q'') (xml_text declared_doc)
     = xml_text declared_normal_doc
   \<and> normalizeSvg (stand_in [declared_doc, declared_normal_doc]) (\<lambda>i. ''zzzzz'')
       (normalizeSvg (stand_in [declared_doc, declared_normal_doc]) (\<lambda>i. ''k3x9q'')
          (xml_text declared_doc))
     = normalizeSvg (stand_in [declared_doc, declared_normal_doc]) (\<lambda>i. ''k3x9q'')
         (xml_text declared_doc)"
proof -
  let ?pf = "stand_in [declared_doc, declared_normal_doc]"
  have p0: "parseFromString ?pf (xml_text declared_doc) = Some declared_doc"
    by code_simp
  have p1: "parseFromString ?pf (xml_text declared_normal_doc) = Some declared_normal_doc"
    by code_simp
  have o: "outerHTML ?pf = xml_text" by (simp add: stand_in_def)
  have rt: "parseFromString ?pf (outerHTML ?pf (normalize_tree ?pf (\<lambda>i. ''k3x9q'') declared_doc))
      = Some (normalize_tree ?pf (\<lambda>i. ''k3x9q'') declared_doc)"
    unfolding o normalize_declared_doc by (rule p1)
  have hyp: "\<forall>t. parseFromString ?pf (xml_text declared_doc) = Some t \<longrightarrow>
      parseFromString ?pf (outerHTML ?pf (normalize_tree ?pf (\<lambda>i. ''k3x9q'') t)) =
        Some (normalize_tree ?pf (\<lambda>i. ''k3x9q'') t)"
    unfolding p0 using rt by simp
  have v: "normalizeSvg ?pf (\<lambda>i. ''k3x9q'') (xml_text declared_doc) = xml_text declared_normal_doc"
    by code_simp
  from normalizeSvg_idempotent [OF hyp, of "\<lambda>i. ''zzzzz''"]
  have i: "normalizeSvg ?pf (\<lambda>i. ''zzzzz'') (normalizeSvg ?pf (\<lambda>i. ''k3x9q'') (xml_text declared_doc))
      = normalizeSvg ?pf (\<lambda>i. ''k3x9q'') (xml_text declared_doc)"
    by blast
  show ?thesis by (intro conjI p0 rt v i)
qed

text \<open>
  Claim C9 as stated holds for every input string.  The text of \<open>raw_doc\<close> declares no
  namespace.  The first pass adds the \<open>xmlns\<close> attribute to the parsed element, behind the
  attributes that are there, and the text it returns has it at that place.  The element
  parsed from that text is in the SVG namespace, and a serializer that writes the
  namespace declaration of such an element before its attributes returns another text
  after the second pass.  In the model, where the tree does not tell an element with an
  added \<open>xmlns\<close> attribute from an element parsed with it, the parser of this platform
  lists the declaration where the serializer will write it.
\<close>

definition raw_doc :: node where
  "raw_doc = Element ''svg'' [(''width'', ''100''), (''height'', ''50'')]
               [Element ''rect'' [(''x'', ''10''), (''y'', ''10'')] []]"

definition normal_doc :: node where
  "normal_doc =
     Element ''svg'' [(''width'', ''100''), (''height'', ''50''),
                      (''xmlns'', ''http://www.w3.org/2000/svg''), (''viewBox'', ''0 0 100 50'')]
       [Element ''rect'' [(''x'', ''10''), (''y'', ''10''), (''id'', ''rect_0_k3x9q'')] []]"

definition renormal_doc :: node where
  "renormal_doc =
     Element ''svg'' [(''xmlns'', ''http://www.w3.org/2000/svg''), (''width'', ''100''),
                      (''height'', ''50''), (''viewBox'', ''0 0 100 50'')]
       [Element ''rect'' [(''x'', ''10''), (''y'', ''10''), (''id'', ''rect_0_k3x9q'')] []]"

definition declaration_first :: "attrs \<Rightarrow> attrs" where
  "declaration_first a =
     (case getAttribute a ''xmlns'' of
        None \<Rightarrow> a
      | Some v \<Rightarrow> (''xmlns'', v) # removeAttribute ''xmlns'' a)"

definition declaration_first_platform :: "node list \<Rightarrow> platform" where
  "declaration_first_platform docs =
     (stand_in docs)
       \<lparr>parseFromString := (\<lambda>s. map_option (map_attrs declaration_first) (table_parser docs s))\<rparr>"

theorem normalizeSvg_not_idempotent_counterexample:
  "normalizeSvg (declaration_first_platform [raw_doc, normal_doc]) (\<lambda>i. ''k3x9q'') (xml_text raw_doc)
     = xml_text normal_doc
   \<and> normalizeSvg (declaration_first_platform [raw_doc, normal_doc]) (\<lambda>i. ''k3x9q'')
       (normalizeSvg (declaration_first_platform [raw_doc, normal_doc]) (\<lambda>i. ''k3x9q'')
          (xml_text raw_doc))
     = xml_text renormal_doc
   \<and> xml_text renormal_doc \<noteq> xml_text normal_doc"
proof -
  let ?pf = "declaration_first_platform [raw_doc, normal_doc]"
  have a: "normalizeSvg ?pf (\<lambda>i. ''k3x9q'') (xml_text raw_doc) = xml_text normal_doc"
    by code_simp
  have b: "normalizeSvg ?pf (\<lambda>i. ''k3x9q'') (xml_text normal_doc) = xml_text renormal_doc"
    by code_simp
  have c: "xml_text renormal_doc \<noteq> xml_text normal_doc"
    by code_simp
  show ?thesis unfolding a by (intro conjI refl b c)
qed

section \<open>Editor panel (EditorTools.tsx)\<close>

subsection \<open>Saving a change: modifySvg\<close>

text \<open>
  \<open>modifySvg\<close> parses the current text, runs the callback, removes the selection artifacts
  (class \<open>selected-outline\<close> and the inline \<open>outline\<close>) from every element of the document
  that carries the class, and hands the serialization of the \<open>svg\<close> element to \<open>onUpdate\<close>.
  An exception raised by the callback or by the clean-up ends the handler before
  \<open>onUpdate\<close> is reached: the \<open>HierarchyRequestError\<close> of the DOM, or the \<open>TypeError\<close> of an
  access to the \<open>style\<close> of an element that has none.  The result is \<open>Inl e\<close> for such an
  exception, \<open>Inr None\<close> when there is no \<open>svg\<close> element and nothing is done, and
  \<open>Inr (Some text)\<close> for the one call \<open>onUpdate(text)\<close>.
\<close>

datatype dom_error = HierarchyRequestError | TypeError

text \<open>The tokens of a \<open>class\<close> attribute, as the ordered set \<open>classList\<close> holds them.\<close>

definition class_tokens :: "string \<Rightarrow> string list" where
  "class_tokens c = rev (remdups (rev (filter (\<lambda>t. t \<noteq> []) (split_runs is_space [] False c))))"

text \<open>The body of the clean-up loop on an element with the attributes \<open>a\<close> in the namespace
  \<open>ns\<close>: \<open>el.classList.remove('selected-outline')\<close>, then the unguarded
  \<open>el.style.outline = ''\<close>.  Elements without the class are not visited.\<close>

definition strip_outline_attrs :: "platform \<Rightarrow> string option \<Rightarrow> attrs \<Rightarrow> dom_error + attrs" where
  "strip_outline_attrs pf ns a =
     (case getAttribute a ''class'' of
        None \<Rightarrow> Inr a
      | Some c \<Rightarrow>
          if ''selected-outline'' \<in> set (class_tokens c) then
            (if has_style_object ns then
               Inr (putAttribute ''style'' (style_removeProperty pf ''outline'' (getAttribute a ''style''))
                      (setAttribute ''class''
                         (join_with '' '' (removeAll ''selected-outline'' (class_tokens c))) a))
             else Inl TypeError)
          else Inr a)"

text \<open>The loop over \<open>doc.querySelectorAll('.selected-outline')\<close>, in document order.\<close>

fun strip_outlines :: "platform \<Rightarrow> string option \<Rightarrow> node \<Rightarrow> dom_error + node"
  and strip_outlines_list :: "platform \<Rightarrow> string option \<Rightarrow> node list \<Rightarrow> dom_error + node list" where
  "strip_outlines pf ns (CharData s) = Inr (CharData s)"
| "strip_outlines pf ns (Element t a cs) =
     (case strip_outline_attrs pf (default_namespace ns a) a of
        Inl e \<Rightarrow> Inl e
      | Inr a' \<Rightarrow>
          (case strip_outlines_list pf (default_namespace ns a) cs of
             Inl e \<Rightarrow> Inl e
           | Inr cs' \<Rightarrow> Inr (Element t a' cs')))"
| "strip_outlines_list pf ns [] = Inr []"
| "strip_outlines_list pf ns (c # cs) =
     (case strip_outlines pf ns c of
        Inl e \<Rightarrow> Inl e
      | Inr c' \<Rightarrow>
          (case strip_outlines_list pf ns cs of
             Inl e \<Rightarrow> Inl e
           | Inr cs' \<Rightarrow> Inr (c' # cs')))"

text \<open>
  A callback can take the \<open>svg\<close> element out of the document (\<open>el.remove()\<close> on the root).
  The clean-up searches the document, so it finds nothing then, and the detached element
  is serialized as the callback left it.  In the general form the callback returns the
  tree of the \<open>svg\<close> element together with the information whether that element is still
  in the document.
\<close>

definition modifySvg_dom ::
  "platform \<Rightarrow> (node \<Rightarrow> dom_error + node \<times> bool) \<Rightarrow> string \<Rightarrow> dom_error + string option" where
  "modifySvg_dom pf callback svgContent =
     (case parseFromString pf svgContent of
        None \<Rightarrow> Inr None
      | Some svg \<Rightarrow>
          (case callback svg of
             Inl e \<Rightarrow> Inl e
           | Inr (svg', in_document) \<Rightarrow>
               if in_document then
                 (case strip_outlines pf None svg' of
                    Inl e \<Rightarrow> Inl e
                  | Inr svg'' \<Rightarrow> Inr (Some (outerHTML pf svg'')))
               else Inr (Some (outerHTML pf svg'))))"

text \<open>\<open>modifySvg\<close> for a callback that leaves the \<open>svg\<close> element in the document.\<close>

definition modifySvg :: "platform \<Rightarrow> (node \<Rightarrow> dom_error + node) \<Rightarrow> string \<Rightarrow> dom_error + string option" where
  "modifySvg pf callback svgContent =
     modifySvg_dom pf
       (\<lambda>svg. case callback svg of Inl e \<Rightarrow> Inl e | Inr svg' \<Rightarrow> Inr (svg', True))
       svgContent"

text \<open>No element carries the class \<open>selected-outline\<close>.\<close>

fun no_outline_marks :: "node \<Rightarrow> bool" where
  "no_outline_marks (CharData s) = True"
| "no_outline_marks (Element t a cs) =
     ((case getAttribute a ''class'' of None \<Rightarrow> True
       | Some c \<Rightarrow> ''selected-outline'' \<notin> set (class_tokens c))
      \<and> (\<forall>c \<in> set cs. no_outline_marks c))"

text \<open>The panel receives \<open>currentContent\<close> as \<open>svgContent\<close> and \<open>handleUpdate\<close> as \<open>onUpdate\<close>;
  an \<open>undefined\<close> content reaches the parser as the text \<open>undefined\<close>.\<close>

definition svgContent_of :: "editor \<Rightarrow> string" where
  "svgContent_of ed = (case currentContent ed of None \<Rightarrow> ''undefined'' | Some s \<Rightarrow> s)"

definition panel_step :: "(string \<Rightarrow> dom_error + string option) \<Rightarrow> editor \<Rightarrow> editor" where
  "panel_step operation ed =
     (case operation (svgContent_of ed) of
        Inr (Some text) \<Rightarrow> handleUpdate text ed
      | Inr None \<Rightarrow> ed
      | Inl e \<Rightarrow> ed)"

subsection \<open>Property updates: updateStyle\<close>

text \<open>
  A property value is a string or a boolean (the flip toggles).  \<open>styleProps\<close> holds the
  fields of the component state that \<open>updateStyle\<close> reads back from \<open>newProps\<close>; the other
  fields of the state are written but never read by it.
\<close>

datatype prop_value = Str string | Bool bool

definition to_string :: "prop_value \<Rightarrow> string" where
  "to_string v = (case v of Str s \<Rightarrow> s | Bool b \<Rightarrow> if b then ''true'' else ''false'')"

definition truthy :: "prop_value \<Rightarrow> bool" where
  "truthy v = (case v of Str s \<Rightarrow> s \<noteq> [] | Bool b \<Rightarrow> b)"

record styleProps =
  p_rotate :: prop_value
  p_scale :: prop_value
  p_flipX :: prop_value
  p_flipY :: prop_value
  p_blur :: prop_value
  p_grayscale :: prop_value
  p_sepia :: prop_value
  p_invert :: prop_value
  p_saturate :: prop_value
  p_hueRotate :: prop_value

text \<open>The \<open>useState\<close> initial value, on those fields.\<close>

definition initial_styleProps :: styleProps where
  "initial_styleProps =
     \<lparr>p_rotate = Str ''0'', p_scale = Str ''1'', p_flipX = Bool False, p_flipY = Bool False,
      p_blur = Str ''0'', p_grayscale = Str ''0'', p_sepia = Str ''0'', p_invert = Str ''0'',
      p_saturate = Str ''1'', p_hueRotate = Str ''0''\<rparr>"

text \<open>\<open>{ ...styleProps, [key]: value }\<close>.\<close>

definition set_prop :: "string \<Rightarrow> prop_value \<Rightarrow> styleProps \<Rightarrow> styleProps" where
  "set_prop key v props =
     (if key = ''rotate'' then props\<lparr>p_rotate := v\<rparr>
      else if key = ''scale'' then props\<lparr>p_scale := v\<rparr>
      else if key = ''flipX'' then props\<lparr>p_flipX := v\<rparr>
      else if key = ''flipY'' then props\<lparr>p_flipY := v\<rparr>
      else if key = ''blur'' then props\<lparr>p_blur := v\<rparr>
      else if key = ''grayscale'' then props\<lparr>p_grayscale := v\<rparr>
      else if key = ''sepia'' then props\<lparr>p_sepia := v\<rparr>
      else if key = ''invert'' then props\<lparr>p_invert := v\<rparr>
      else if key = ''saturate'' then props\<lparr>p_saturate := v\<rparr>
      else if key = ''hueRotate'' then props\<lparr>p_hueRotate := v\<rparr>
      else props)"

record shadowProps =
  sh_enabled :: bool
  sh_x :: "real option"
  sh_y :: "real option"
  sh_blur :: "real option"
  sh_color :: string
  sh_opacity :: "real option"

definition initial_shadowProps :: shadowProps where
  "initial_shadowProps =
     \<lparr>sh_enabled = False, sh_x = Some 2, sh_y = Some 2, sh_blur = Some 2,
      sh_color = ''#000000'', sh_opacity = Some 0.5\<rparr>"

definition paint_keys :: "string list" where
  "paint_keys = [''fill'', ''fill-opacity'', ''stroke'', ''stroke-width'', ''stroke-opacity'',
                 ''stroke-linecap'', ''stroke-linejoin'', ''stroke-dasharray'', ''opacity'',
                 ''font-family'', ''font-size'', ''font-weight'']"

text \<open>Negation of a number; \<open>NaN\<close> stays \<open>NaN\<close>.\<close>

definition num_neg :: "real option \<Rightarrow> real option" where
  "num_neg v = map_option uminus v"

text \<open>The declaration the panel writes for a rotate, scale or flip edit.\<close>

definition panel_transform :: "platform \<Rightarrow> styleProps \<Rightarrow> string" where
  "panel_transform pf newProps =
     (let r = to_string (p_rotate newProps);
          s = parseFloat pf (to_string (p_scale newProps));
          sx = (if truthy (p_flipX newProps) then num_neg s else s);
          sy = (if truthy (p_flipY newProps) then num_neg s else s)
      in ''transform: rotate('' @ r @ ''deg) scale('' @ num_toString pf sx @ '', ''
           @ num_toString pf sy @ ''); transform-box: fill-box; transform-origin: center;'')"

definition num_gt0 :: "real option \<Rightarrow> bool" where
  "num_gt0 v = (case v of None \<Rightarrow> False | Some r \<Rightarrow> 0 < r)"

definition shadow_color :: "platform \<Rightarrow> shadowProps \<Rightarrow> string" where
  "shadow_color pf shadow =
     (let color = sh_color shadow
      in if starts_with color ''#'' then
           ''rgba('' @ num_toString pf (parseInt16 pf (take 2 (drop 1 color))) @ '',''
             @ num_toString pf (parseInt16 pf (take 2 (drop 3 color))) @ '',''
             @ num_toString pf (parseInt16 pf (take 2 (drop 5 color))) @ '',''
             @ num_toString pf (sh_opacity shadow) @ '')''
         else color)"

definition panel_filters :: "platform \<Rightarrow> styleProps \<Rightarrow> shadowProps \<Rightarrow> string list" where
  "panel_filters pf newProps shadow =
     (if num_gt0 (parseFloat pf (to_string (p_blur newProps)))
      then [''blur('' @ to_string (p_blur newProps) @ ''px)''] else [])
     @ (if num_gt0 (parseFloat pf (to_string (p_grayscale newProps)))
        then [''grayscale('' @ to_string (p_grayscale newProps) @ '')''] else [])
     @ (if num_gt0 (parseFloat pf (to_string (p_sepia newProps)))
        then [''sepia('' @ to_string (p_sepia newProps) @ '')''] else [])
     @ (if num_gt0 (parseFloat pf (to_string (p_invert newProps)))
        then [''invert('' @ to_string (p_invert newProps) @ '')''] else [])
     @ (if parseFloat pf (to_string (p_saturate newProps)) \<noteq> Some 1
        then [''saturate('' @ to_string (p_saturate newProps) @ '')''] else [])
     @ (if num_gt0 (parseFloat pf (to_string (p_hueRotate newProps)))
        then [''hue-rotate('' @ to_string (p_hueRotate newProps) @ ''deg)''] else [])
     @ (if sh_enabled shadow
        then [''drop-shadow('' @ num_toString pf (sh_x shadow) @ ''px ''
                @ num_toString pf (sh_y shadow) @ ''px '' @ num_toString pf (sh_blur shadow)
                @ ''px '' @ shadow_color pf shadow @ '')'']
        else [])"

text \<open>What the callback of \<open>updateStyle\<close> does to the element it found; \<open>has_style\<close> is the
  test \<open>if (el.style)\<close> that guards the inline style of the paint properties.\<close>

definition updateStyle_element ::
  "platform \<Rightarrow> styleProps \<Rightarrow> shadowProps \<Rightarrow> string \<Rightarrow> prop_value \<Rightarrow> bool \<Rightarrow> node \<Rightarrow> node" where
  "updateStyle_element pf newProps shadow key v has_style el =
     (case el of
        CharData s \<Rightarrow> CharData s
      | Element tagName a cs \<Rightarrow>
          (let tag = toLowerCase tagName;
               currentStyle = attr_or a ''style'' []
           in if key = ''textContent'' then
                Element tagName a (if to_string v = [] then [] else [CharData (to_string v)])
              else if key = ''x'' \<or> key = ''y'' then
                (if tag = ''circle'' \<or> tag = ''ellipse''
                 then Element tagName (setAttribute (if key = ''x'' then ''cx'' else ''cy'') (to_string v) a) cs
                 else Element tagName (setAttribute key (to_string v) a) cs)
              else if key = ''rx'' then
                (if tag = ''rect''
                 then Element tagName (setAttribute ''ry'' (to_string v) (setAttribute ''rx'' (to_string v) a)) cs
                 else Element tagName (setAttribute ''rx'' (to_string v) a) cs)
              else if key \<in> set paint_keys then
                (let a1 = (if v = Str ''none'' \<and> key = ''stroke-dasharray''
                           then removeAttribute key a else setAttribute key (to_string v) a);
                     a2 = (if has_style then
                             (if v = Str ''none'' \<and> (key = ''stroke-dasharray'' \<or> key = ''stroke'')
                              then putAttribute ''style''
                                     (style_removeProperty pf key (getAttribute a1 ''style'')) a1
                              else putAttribute ''style''
                                     (style_setProperty pf key (to_string v) (getAttribute a1 ''style'')) a1)
                           else a1)
                 in Element tagName a2 cs)
              else if key \<in> set [''rotate'', ''scale'', ''flipX'', ''flipY''] then
                Element tagName
                  (setAttribute ''style''
                     (trim (remove_decl ''transform'' currentStyle) @ '' '' @ panel_transform pf newProps) a) cs
              else if key \<in> set [''blur'', ''grayscale'', ''sepia'', ''invert'', ''saturate'', ''hueRotate''] then
                (let style1 = trim (remove_decl ''filter'' currentStyle);
                     filters = panel_filters pf newProps shadow
                 in if filters \<noteq> []
                    then Element tagName
                           (setAttribute ''style'' (style1 @ '' filter: '' @ join_with '' '' filters @ '';'') a) cs
                    else Element tagName (setAttribute ''style'' style1 a) cs)
              else if key = ''blendMode'' then
                (let style1 = trim (remove_decl ''mix-blend-mode'' currentStyle)
                 in if v \<noteq> Str ''normal''
                    then Element tagName
                           (setAttribute ''style'' (style1 @ '' mix-blend-mode: '' @ to_string v @ '';'') a) cs
                    else Element tagName (setAttribute ''style'' style1 a) cs)
              else Element tagName a cs))"

definition updateStyle_callback ::
  "platform \<Rightarrow> styleProps \<Rightarrow> shadowProps \<Rightarrow> string \<Rightarrow> string \<Rightarrow> prop_value \<Rightarrow> node \<Rightarrow> node" where
  "updateStyle_callback pf newProps shadow selectedElementId key v doc =
     (case getElementById doc selectedElementId of
        None \<Rightarrow> doc
      | Some p \<Rightarrow>
          update_at p
            (updateStyle_element pf newProps shadow key v (has_style_object (namespace_at None doc p)))
            doc)"

text \<open>\<open>updateStyle(key, value)\<close>: nothing is saved without a selection.\<close>

definition updateStyle ::
  "platform \<Rightarrow> styleProps \<Rightarrow> shadowProps \<Rightarrow> string option \<Rightarrow> string \<Rightarrow> prop_value \<Rightarrow> string
     \<Rightarrow> dom_error + string option" where
  "updateStyle pf props shadow selectedElementId key v svgContent =
     (if truthy_str selectedElementId then
        modifySvg pf
          (\<lambda>doc. Inr (updateStyle_callback pf (set_prop key v props) shadow
                        (str_or_empty selectedElementId) key v doc))
          svgContent
      else Inr None)"

subsection \<open>Lemmas on saving\<close>

lemma strip_outlines_clean:
  "no_outline_marks doc \<Longrightarrow> strip_outlines pf ns doc = Inr doc"
  "(\<forall>c \<in> set cs. no_outline_marks c) \<Longrightarrow> strip_outlines_list pf ns cs = Inr cs"
proof (induction pf ns doc and pf ns cs rule: strip_outlines_strip_outlines_list.induct)
  case (1 pf ns s)
  then show ?case by simp
next
  case (2 pf ns t a cs)
  have a: "strip_outline_attrs pf (default_namespace ns a) a = Inr a"
    using "2.prems" by (auto simp: strip_outline_attrs_def split: option.splits)
  have "\<forall>c \<in> set cs. no_outline_marks c" using "2.prems" by simp
  then have "strip_outlines_list pf (default_namespace ns a) cs = Inr cs"
    using a by (intro "2.IH") simp_all
  then show ?case using a by simp
next
  case (3 pf ns)
  then show ?case by simp
next
  case (4 pf ns c cs)
  have c: "strip_outlines pf ns c = Inr c" using "4.prems" by (intro "4.IH"(1)) simp
  have "strip_outlines_list pf ns cs = Inr cs" using "4.prems" c by (intro "4.IH"(2)) simp_all
  then show ?case using c by simp
qed

lemma modifySvg_saves:
  assumes "parseFromString pf svgContent = Some doc" "callback doc = Inr doc'"
  shows "modifySvg pf callback svgContent =
           (case strip_outlines pf None doc' of
              Inl e \<Rightarrow> Inl e
            | Inr doc'' \<Rightarrow> Inr (Some (outerHTML pf doc'')))"
  using assms by (simp add: modifySvg_def modifySvg_dom_def)

lemma modifySvg_emits_once:
  assumes "parseFromString pf svgContent = Some doc" "callback doc = Inr doc'"
    and "no_outline_marks doc'"
  shows "modifySvg pf callback svgContent = Inr (Some (outerHTML pf doc'))"
  using assms by (simp add: modifySvg_saves strip_outlines_clean)

lemma updateStyle_callback_absent:
  "getElementById doc sel = None \<Longrightarrow> updateStyle_callback pf newProps shadow sel key v doc = doc"
  by (simp add: updateStyle_callback_def)

subsection \<open>Claim on stale property changes\<close>

text \<open>A document in the SVG namespace in which an element carries the class
  \<open>selected-outline\<close>, the same document after the artifacts were removed, and a document
  without the class.\<close>

definition marked_doc :: node where
  "marked_doc = Element ''svg'' [(''xmlns'', ''http://www.w3.org/2000/svg'')]
                  [Element ''rect'' [(''id'', ''a''), (''class'', ''selected-outline'')] []]"

definition unmarked_doc :: node where
  "unmarked_doc = Element ''svg'' [(''xmlns'', ''http://www.w3.org/2000/svg'')]
                    [Element ''rect'' [(''id'', ''a''), (''class'', [])] []]"

definition plain_doc :: node where
  "plain_doc = Element ''svg'' [(''xmlns'', ''http://www.w3.org/2000/svg'')]
                 [Element ''rect'' [(''id'', ''a''), (''fill'', ''#000000'')] []]"

text \<open>
  Claim C4, as far as the code carries it.  The editor shows a text that parses to \<open>doc\<close>,
  and no element of \<open>doc\<close> carries the class \<open>selected-outline\<close>.  A property change (any
  key, any value) whose selected id is not in \<open>doc\<close> leaves the tree as it is and raises
  nothing.  The call is not silent: \<open>modifySvg\<close> serializes the unchanged tree and hands the
  text to \<open>onUpdate\<close>, and \<open>handleUpdate\<close> appends it to the history as one more snapshot.
\<close>

theorem stale_property_change:
  assumes "parseFromString pf (svgContent_of ed) = Some doc"
    and "sel \<noteq> []"
    and "getElementById doc sel = None"
    and "no_outline_marks doc"
  shows "updateStyle_callback pf (set_prop key v props) shadow sel key v doc = doc
       \<and> updateStyle pf props shadow (Some sel) key v (svgContent_of ed) = Inr (Some (outerHTML pf doc))
       \<and> panel_step (updateStyle pf props shadow (Some sel) key v) ed
           = handleUpdate (outerHTML pf doc) ed
       \<and> history (panel_step (updateStyle pf props shadow (Some sel) key v) ed)
           = js_slice0 (history ed) (historyIndex ed + 1) @ [outerHTML pf doc]"
proof -
  have cb: "updateStyle_callback pf (set_prop key v props) shadow sel key v doc = doc"
    using assms(3) by (rule updateStyle_callback_absent)
  have up: "updateStyle pf props shadow (Some sel) key v (svgContent_of ed) = Inr (Some (outerHTML pf doc))"
    using assms(1,2,4) cb
    by (simp add: updateStyle_def truthy_str_def str_or_empty_def modifySvg_emits_once)
  have st: "panel_step (updateStyle pf props shadow (Some sel) key v) ed
      = handleUpdate (outerHTML pf doc) ed"
    by (simp add: panel_step_def up)
  have hi: "history (panel_step (updateStyle pf props shadow (Some sel) key v) ed)
      = js_slice0 (history ed) (historyIndex ed + 1) @ [outerHTML pf doc]"
    unfolding st by (simp add: handleUpdate_def Let_def)
  from cb up st hi show ?thesis by blast
qed

text \<open>The editor right after \<open>plain_doc\<close> was loaded, and a property change for an id that
  is gone: the same text is saved again, as a second snapshot.\<close>

definition plain_editor :: editor where
  "plain_editor =
     \<lparr>history = [xml_text plain_doc], historyIndex = 0, currentContent = Some (xml_text plain_doc)\<rparr>"

theorem stale_property_change_witness:
  "getElementById plain_doc ''gone'' = None
   \<and> no_outline_marks plain_doc
   \<and> updateStyle (stand_in [plain_doc]) initial_styleProps initial_shadowProps
        (Some ''gone'') ''fill'' (Str ''#ff0000'') (xml_text plain_doc)
      = Inr (Some (xml_text plain_doc))
   \<and> history (panel_step (updateStyle (stand_in [plain_doc]) initial_styleProps initial_shadowProps
                             (Some ''gone'') ''fill'' (Str ''#ff0000'')) plain_editor)
      = [xml_text plain_doc, xml_text plain_doc]"
proof -
  have c: "svgContent_of plain_editor = xml_text plain_doc"
    by (simp add: svgContent_of_def plain_editor_def)
  have p: "parseFromString (stand_in [plain_doc]) (svgContent_of plain_editor) = Some plain_doc"
    unfolding c by code_simp
  have n: "''gone'' \<noteq> []" by simp
  have g: "getElementById plain_doc ''gone'' = None" by code_simp
  have m: "no_outline_marks plain_doc" by code_simp
  have o: "outerHTML (stand_in [plain_doc]) plain_doc = xml_text plain_doc"
    by (simp add: stand_in_def)
  have sl: "js_slice0 (history plain_editor) (historyIndex plain_editor + 1) = [xml_text plain_doc]"
    by (simp add: js_slice0_def plain_editor_def)
  note t = stale_property_change [OF p n g m, of "''fill''" "Str ''#ff0000''" initial_styleProps
      initial_shadowProps]
  from t have u: "updateStyle (stand_in [plain_doc]) initial_styleProps initial_shadowProps
        (Some ''gone'') ''fill'' (Str ''#ff0000'') (svgContent_of plain_editor)
      = Inr (Some (outerHTML (stand_in [plain_doc]) plain_doc))"
    by blast
  from t have h: "history (panel_step (updateStyle (stand_in [plain_doc]) initial_styleProps
        initial_shadowProps (Some ''gone'') ''fill'' (Str ''#ff0000'')) plain_editor)
      = js_slice0 (history plain_editor) (historyIndex plain_editor + 1)
          @ [outerHTML (stand_in [plain_doc]) plain_doc]"
    by blast
  have u': "updateStyle (stand_in [plain_doc]) initial_styleProps initial_shadowProps
        (Some ''gone'') ''fill'' (Str ''#ff0000'') (xml_text plain_doc)
      = Inr (Some (xml_text plain_doc))"
    using u unfolding c o .
  have h': "history (panel_step (updateStyle (stand_in [plain_doc]) initial_styleProps
        initial_shadowProps (Some ''gone'') ''fill'' (Str ''#ff0000'')) plain_editor)
      = [xml_text plain_doc, xml_text plain_doc]"
    using h unfolding sl o by simp
  from g m u' h' show ?thesis by blast
qed

text \<open>
  Claim C4 as stated promises the unchanged document for every document.  In \<open>marked_doc\<close>
  the rectangle is an SVG element that carries the class \<open>selected-outline\<close>.  A property
  change for an id that is not there leaves the tree to the clean-up of \<open>modifySvg\<close>, which
  rewrites the \<open>class\<close> attribute of the rectangle, on every platform; on the stand-in
  platform the saved text is that of \<open>unmarked_doc\<close>.
\<close>

theorem stale_property_change_counterexample:
  "getElementById marked_doc ''gone'' = None
   \<and> (\<forall>pf. strip_outlines pf None marked_doc \<noteq> Inr marked_doc
           \<and> strip_outlines pf None marked_doc \<noteq> Inl TypeError)
   \<and> updateStyle (stand_in [marked_doc]) initial_styleProps initial_shadowProps
        (Some ''gone'') ''fill'' (Str ''#ff0000'') (xml_text marked_doc)
      = Inr (Some (xml_text unmarked_doc))
   \<and> xml_text unmarked_doc \<noteq> xml_text marked_doc"
proof -
  have g: "getElementById marked_doc ''gone'' = None" by code_simp
  have tk: "class_tokens ''selected-outline'' = [''selected-outline'']" by code_simp
  have ns: "has_style_object (default_namespace (default_namespace None [(''xmlns'', ''http://www.w3.org/2000/svg'')])
      [(''id'', ''a''), (''class'', ''selected-outline'')])"
    by code_simp
  let ?a = "[(''id'', ''a''), (''class'', ''selected-outline'')]"
  have cls: "getAttribute ?a ''class'' = Some ''selected-outline''"
    by (simp add: getAttribute_def)
  have sa: "\<exists>a'. strip_outline_attrs pf
        (default_namespace (default_namespace None [(''xmlns'', ''http://www.w3.org/2000/svg'')]) ?a) ?a
        = Inr a' \<and> getAttribute a' ''class'' = Some []" for pf
    using ns cls
    by (simp add: strip_outline_attrs_def tk getAttribute_putAttribute getAttribute_setAttribute)
  have a: "strip_outlines pf None marked_doc \<noteq> Inr marked_doc
      \<and> strip_outlines pf None marked_doc \<noteq> Inl TypeError" for pf
  proof -
    from sa [of pf] obtain a' where
      s: "strip_outline_attrs pf
        (default_namespace (default_namespace None [(''xmlns'', ''http://www.w3.org/2000/svg'')]) ?a) ?a
        = Inr a'" and c: "getAttribute a' ''class'' = Some []"
      by blast
    have root: "strip_outline_attrs pf (default_namespace None [(''xmlns'', ''http://www.w3.org/2000/svg'')])
        [(''xmlns'', ''http://www.w3.org/2000/svg'')] = Inr [(''xmlns'', ''http://www.w3.org/2000/svg'')]"
      by (simp add: strip_outline_attrs_def getAttribute_def)
    have r: "strip_outlines pf None marked_doc
        = Inr (Element ''svg'' [(''xmlns'', ''http://www.w3.org/2000/svg'')] [Element ''rect'' a' []])"
      by (simp add: marked_doc_def root s)
    have "a' \<noteq> ?a" using c cls by auto
    then show ?thesis unfolding r by (simp add: marked_doc_def)
  qed
  have b: "updateStyle (stand_in [marked_doc]) initial_styleProps initial_shadowProps
        (Some ''gone'') ''fill'' (Str ''#ff0000'') (xml_text marked_doc)
      = Inr (Some (xml_text unmarked_doc))"
    by code_simp
  have c: "xml_text unmarked_doc \<noteq> xml_text marked_doc" by code_simp
  show ?thesis using g a b c by blast
qed

subsection \<open>Layers: visibility, delete, duplicate, move\<close>

text \<open>
  The layer buttons pass an id; the node is looked up with \<open>getElementById\<close> in the whole
  document, so the lookup can end at the root.  Removing the root takes it out of the
  document and leaves its tree as it is; the root has no siblings; inserting a second
  element next to the root is refused by the DOM with a \<open>HierarchyRequestError\<close>.
\<close>

definition toggleVisibility_callback :: "string \<Rightarrow> node \<Rightarrow> node" where
  "toggleVisibility_callback i doc =
     (case getElementById doc i of
        None \<Rightarrow> doc
      | Some p \<Rightarrow>
          update_at p
            (map_attrs (\<lambda>a. setAttribute ''display''
                               (if getAttribute a ''display'' = Some ''none'' then [] else ''none'') a))
            doc)"

text \<open>\<open>el.remove()\<close>.\<close>

definition remove_at :: "nat list \<Rightarrow> node \<Rightarrow> node" where
  "remove_at p doc =
     (if p = [] then doc
      else update_at (butlast p)
             (map_children (\<lambda>cs. take (last p) cs @ drop (Suc (last p)) cs)) doc)"

text \<open>The callback of \<open>deleteLayer\<close>: the tree of the \<open>svg\<close> element, and whether that
  element is still in the document.\<close>

definition deleteLayer_callback :: "string \<Rightarrow> node \<Rightarrow> node \<times> bool" where
  "deleteLayer_callback i doc =
     (case getElementById doc i of
        None \<Rightarrow> (doc, True)
      | Some p \<Rightarrow> (remove_at p doc, p \<noteq> []))"

text \<open>\<open>el.insertAdjacentElement('afterend', new)\<close> for a new element.\<close>

definition insert_after :: "nat list \<Rightarrow> node \<Rightarrow> node \<Rightarrow> dom_error + node" where
  "insert_after p new doc =
     (if p = [] then Inl HierarchyRequestError
      else Inr (update_at (butlast p)
                  (map_children (\<lambda>cs. take (Suc (last p)) cs @ new # drop (Suc (last p)) cs)) doc))"

text \<open>The panel's Duplicate button: a deep clone under the id \<open>copy-\<close>\<open>Date.now()\<close>.\<close>

definition duplicateLayer_callback :: "nat \<Rightarrow> string \<Rightarrow> node \<Rightarrow> dom_error + node" where
  "duplicateLayer_callback now i doc =
     (case getElementById doc i of
        None \<Rightarrow> Inr doc
      | Some p \<Rightarrow>
          (case get_at doc p of
             None \<Rightarrow> Inr doc
           | Some el \<Rightarrow>
               insert_after p (map_attrs (setAttribute ''id'' (''copy-'' @ show_nat now)) el) doc))"

text \<open>\<open>nextElementSibling\<close> and \<open>previousElementSibling\<close> of the child at index \<open>i\<close>.\<close>

definition next_element_index :: "node list \<Rightarrow> nat \<Rightarrow> nat option" where
  "next_element_index cs i =
     (case filter (\<lambda>j. is_element (cs ! j)) [Suc i ..< length cs] of
        [] \<Rightarrow> None | j # js \<Rightarrow> Some j)"

definition previous_element_index :: "node list \<Rightarrow> nat \<Rightarrow> nat option" where
  "previous_element_index cs i =
     (case rev (filter (\<lambda>j. is_element (cs ! j)) [0 ..< i]) of
        [] \<Rightarrow> None | j # js \<Rightarrow> Some j)"

text \<open>\<open>next.after(el)\<close> and \<open>prev.before(el)\<close>: the child at \<open>i\<close> is taken out and put back
  right after its next element sibling, or right before its previous one.\<close>

definition move_after_next :: "node list \<Rightarrow> nat \<Rightarrow> node list" where
  "move_after_next cs i =
     (case next_element_index cs i of
        None \<Rightarrow> cs
      | Some j \<Rightarrow> take i cs @ drop (Suc i) (take (Suc j) cs) @ cs ! i # drop (Suc j) cs)"

definition move_before_previous :: "node list \<Rightarrow> nat \<Rightarrow> node list" where
  "move_before_previous cs i =
     (case previous_element_index cs i of
        None \<Rightarrow> cs
      | Some j \<Rightarrow> take j cs @ cs ! i # drop j (take i cs) @ drop (Suc i) cs)"

datatype direction = Up | Down

definition moveLayer_callback :: "string \<Rightarrow> direction \<Rightarrow> node \<Rightarrow> node" where
  "moveLayer_callback i dir doc =
     (case getElementById doc i of
        None \<Rightarrow> doc
      | Some p \<Rightarrow>
          if p = [] then doc
          else update_at (butlast p)
                 (map_children
                    (\<lambda>cs. case dir of Up \<Rightarrow> move_after_next cs (last p)
                                    | Down \<Rightarrow> move_before_previous cs (last p)))
                 doc)"

subsection \<open>Numbers read from the document\<close>

text \<open>Arithmetic on numbers that may be \<open>NaN\<close>.\<close>

definition num_lift2 :: "(real \<Rightarrow> real \<Rightarrow> real) \<Rightarrow> real option \<Rightarrow> real option \<Rightarrow> real option" where
  "num_lift2 f a b = (case a of None \<Rightarrow> None | Some x \<Rightarrow> (case b of None \<Rightarrow> None | Some y \<Rightarrow> Some (f x y)))"

text \<open>\<open>svg.getAttribute('viewBox')?.split(' ').map(Number) || [0, 0, 100, 100]\<close>, and an
  entry of that array, \<open>undefined\<close> (in arithmetic: \<open>NaN\<close>) past its end.\<close>

definition viewBox_numbers :: "platform \<Rightarrow> node \<Rightarrow> real option list" where
  "viewBox_numbers pf svg =
     (case svg of
        Element t a cs \<Rightarrow>
          (case getAttribute a ''viewBox'' of
             None \<Rightarrow> [Some 0, Some 0, Some 100, Some 100]
           | Some v \<Rightarrow> map (js_Number pf) (split_space v))
      | CharData s \<Rightarrow> [Some 0, Some 0, Some 100, Some 100])"

definition num_at :: "real option list \<Rightarrow> nat \<Rightarrow> real option" where
  "num_at xs i = (if i < length xs then xs ! i else None)"

subsection \<open>Alignment: alignLayer\<close>

datatype alignment = AlignLeft | AlignCenter | AlignRight | AlignTop | AlignMiddle | AlignBottom

definition alignLayer_element :: "platform \<Rightarrow> real option \<Rightarrow> real option \<Rightarrow> alignment \<Rightarrow> node \<Rightarrow> node" where
  "alignLayer_element pf vbW vbH al el =
     (case el of
        CharData s \<Rightarrow> CharData s
      | Element tg a cs \<Rightarrow>
          (let tagName = toLowerCase tg;
               w = (if tagName = ''circle''
                    then num_lift2 (*) (parseFloat pf (attr_or a ''r'' ''0'')) (Some 2)
                    else if tagName = ''rect'' \<or> tagName = ''image''
                    then parseFloat pf (attr_or a ''width'' ''0'')
                    else Some 0);
               h = (if tagName = ''circle'' then w
                    else if tagName = ''rect'' \<or> tagName = ''image''
                    then parseFloat pf (attr_or a ''height'' ''0'')
                    else Some 0);
               x = (if tagName = ''circle''
                    then num_lift2 (-) (parseFloat pf (attr_or a ''cx'' ''0'')) (num_lift2 (/) w (Some 2))
                    else if tagName = ''rect'' \<or> tagName = ''image''
                    then parseFloat pf (attr_or a ''x'' ''0'')
                    else Some 0);
               y = (if tagName = ''circle''
                    then num_lift2 (-) (parseFloat pf (attr_or a ''cy'' ''0'')) (num_lift2 (/) h (Some 2))
                    else if tagName = ''rect'' \<or> tagName = ''image''
                    then parseFloat pf (attr_or a ''y'' ''0'')
                    else Some 0);
               newX = (case al of
                         AlignLeft \<Rightarrow> Some 0
                       | AlignCenter \<Rightarrow> num_lift2 (/) (num_lift2 (-) vbW w) (Some 2)
                       | AlignRight \<Rightarrow> num_lift2 (-) vbW w
                       | AlignTop \<Rightarrow> x | AlignMiddle \<Rightarrow> x | AlignBottom \<Rightarrow> x);
               newY = (case al of
                         AlignTop \<Rightarrow> Some 0
                       | AlignMiddle \<Rightarrow> num_lift2 (/) (num_lift2 (-) vbH h) (Some 2)
                       | AlignBottom \<Rightarrow> num_lift2 (-) vbH h
                       | AlignLeft \<Rightarrow> y | AlignCenter \<Rightarrow> y | AlignRight \<Rightarrow> y)
           in if tagName = ''circle'' then
                Element tg
                  (setAttribute ''cy'' (num_toString pf (num_lift2 (+) newY (num_lift2 (/) h (Some 2))))
                     (setAttribute ''cx'' (num_toString pf (num_lift2 (+) newX (num_lift2 (/) w (Some 2)))) a))
                  cs
              else if tagName = ''rect'' \<or> tagName = ''image'' then
                Element tg
                  (setAttribute ''y'' (num_toString pf newY) (setAttribute ''x'' (num_toString pf newX) a)) cs
              else if tagName = ''text'' then
                (if al = AlignCenter
                 then Element tg
                        (setAttribute ''text-anchor'' ''middle''
                           (setAttribute ''x'' (num_toString pf (num_lift2 (/) vbW (Some 2))) a)) cs
                 else Element tg a cs)
              else Element tg a cs))"

definition alignLayer_callback :: "platform \<Rightarrow> string \<Rightarrow> alignment \<Rightarrow> node \<Rightarrow> node" where
  "alignLayer_callback pf selectedElementId al doc =
     (case getElementById doc selectedElementId of
        None \<Rightarrow> doc
      | Some p \<Rightarrow>
          update_at p
            (alignLayer_element pf (num_at (viewBox_numbers pf doc) 2) (num_at (viewBox_numbers pf doc) 3) al)
            doc)"

subsection \<open>New shapes: addShape\<close>

datatype shape = Rect | Circle | Ellipse | Triangle | Star | Heart | Arrow | Bubble | TextShape

text \<open>\<open>viewBox[2] || 100\<close>: \<open>undefined\<close>, \<open>NaN\<close> and \<open>0\<close> are falsy.\<close>

definition canvas_dim :: "real option \<Rightarrow> real" where
  "canvas_dim v = (case v of None \<Rightarrow> 100 | Some r \<Rightarrow> if r = 0 then 100 else r)"

text \<open>A number in a template literal.\<close>

definition fmt :: "platform \<Rightarrow> real \<Rightarrow> string" where
  "fmt pf r = num_toString pf (Some r)"

text \<open>The vertex the loop of the star computes for index \<open>i\<close>.\<close>

definition star_vertex :: "real \<Rightarrow> real \<Rightarrow> real \<Rightarrow> nat \<Rightarrow> real \<times> real" where
  "star_vertex centerX centerY sz i =
     (let outerRadius = sz / 2;
          innerRadius = sz / 5;
          spikes = 5;
          r = (if i mod 2 = 0 then outerRadius else innerRadius);
          angle = (pi / spikes) * real i - pi / 2
      in (centerX + cos angle * r, centerY + sin angle * r))"

definition star_points :: "real \<Rightarrow> real \<Rightarrow> real \<Rightarrow> (real \<times> real) list" where
  "star_points centerX centerY sz = map (star_vertex centerX centerY sz) [0 ..< 5 * 2]"

definition point_text :: "platform \<Rightarrow> real \<times> real \<Rightarrow> string" where
  "point_text pf p = fmt pf (fst p) @ '','' @ fmt pf (snd p)"

text \<open>The element \<open>addShape\<close> creates, before it gets its id: tag, attributes in the order
  they are set, children.\<close>

definition new_shape :: "platform \<Rightarrow> real \<Rightarrow> real \<Rightarrow> real \<Rightarrow> shape \<Rightarrow> node" where
  "new_shape pf centerX centerY sz shp =
     (case shp of
        Rect \<Rightarrow>
          Element ''rect''
            [(''x'', fmt pf (centerX - sz / 2)), (''y'', fmt pf (centerY - sz / 2)),
             (''width'', fmt pf sz), (''height'', fmt pf sz), (''fill'', ''#6366f1'')] []
      | Circle \<Rightarrow>
          Element ''circle''
            [(''cx'', fmt pf centerX), (''cy'', fmt pf centerY), (''r'', fmt pf (sz / 2)),
             (''fill'', ''#ec4899'')] []
      | Ellipse \<Rightarrow>
          Element ''ellipse''
            [(''cx'', fmt pf centerX), (''cy'', fmt pf centerY), (''rx'', fmt pf (sz / 1.5)),
             (''ry'', fmt pf (sz / 3)), (''fill'', ''#8b5cf6'')] []
      | Triangle \<Rightarrow>
          (let h = sz * (sqrt 3 / 2);
               p1 = point_text pf (centerX, centerY - h / 2);
               p2 = point_text pf (centerX - sz / 2, centerY + h / 2);
               p3 = point_text pf (centerX + sz / 2, centerY + h / 2)
           in Element ''polygon''
                [(''points'', p1 @ '' '' @ p2 @ '' '' @ p3), (''fill'', ''#f59e0b'')] [])
      | Star \<Rightarrow>
          Element ''polygon''
            [(''points'', join_with '' '' (map (point_text pf) (star_points centerX centerY sz))),
             (''fill'', ''#eab308'')] []
      | Heart \<Rightarrow>
          Element ''path''
            [(''d'', join_with '' ''
                [''M'' @ fmt pf centerX, fmt pf (centerY + sz * 0.3),
                 ''C'' @ fmt pf centerX, fmt pf (centerY + sz * 0.3),
                 fmt pf (centerX - sz * 0.6), fmt pf (centerY - sz * 0.3),
                 fmt pf (centerX - sz * 0.3), fmt pf (centerY - sz * 0.6),
                 ''C'' @ fmt pf (centerX - sz * 0.1), fmt pf (centerY - sz * 0.8),
                 fmt pf centerX, fmt pf (centerY - sz * 0.3),
                 fmt pf centerX, fmt pf (centerY - sz * 0.3),
                 ''C'' @ fmt pf centerX, fmt pf (centerY - sz * 0.3),
                 fmt pf (centerX + sz * 0.1), fmt pf (centerY - sz * 0.8),
                 fmt pf (centerX + sz * 0.3), fmt pf (centerY - sz * 0.6),
                 ''C'' @ fmt pf (centerX + sz * 0.6), fmt pf (centerY - sz * 0.3),
                 fmt pf centerX, fmt pf (centerY + sz * 0.3),
                 fmt pf centerX, fmt pf (centerY + sz * 0.3), ''Z'']),
             (''fill'', ''#ef4444'')] []
      | Arrow \<Rightarrow>
          (let w = sz; h = sz / 2
           in Element ''path''
                [(''d'', join_with '' ''
                    [''M'' @ fmt pf (centerX - w / 2), fmt pf (centerY - h / 4),
                     ''L'' @ fmt pf (centerX + w / 4), fmt pf (centerY - h / 4),
                     ''L'' @ fmt pf (centerX + w / 4), fmt pf (centerY - h / 2),
                     ''L'' @ fmt pf (centerX + w / 2), fmt pf centerY,
                     ''L'' @ fmt pf (centerX + w / 4), fmt pf (centerY + h / 2),
                     ''L'' @ fmt pf (centerX + w / 4), fmt pf (centerY + h / 4),
                     ''L'' @ fmt pf (centerX - w / 2), fmt pf (centerY + h / 4), ''Z'']),
                 (''fill'', ''#3b82f6'')] [])
      | Bubble \<Rightarrow>
          (let w = sz; h = sz * 0.8
           in Element ''path''
                [(''d'', join_with '' ''
                    [''M'' @ fmt pf (centerX - w / 2) @ '','' @ fmt pf (centerY - h / 2),
                     ''h'' @ fmt pf w, ''v'' @ fmt pf (h * 0.7), ''h-'' @ fmt pf (w / 2),
                     ''l-'' @ fmt pf (w / 4) @ '','' @ fmt pf (h * 0.3),
                     ''v-'' @ fmt pf (h * 0.3), ''h-'' @ fmt pf (w / 4), ''z'']),
                 (''fill'', ''#10b981'')] [])
      | TextShape \<Rightarrow>
          Element ''text''
            [(''x'', fmt pf centerX), (''y'', fmt pf centerY), (''text-anchor'', ''middle''),
             (''dominant-baseline'', ''middle''), (''fill'', ''#ffffff''),
             (''font-size'', fmt pf (sz / 2))]
            [CharData ''Text''])"

definition addShape_callback :: "platform \<Rightarrow> nat \<Rightarrow> shape \<Rightarrow> node \<Rightarrow> node" where
  "addShape_callback pf now shp svg =
     (let viewBox = viewBox_numbers pf svg;
          width = canvas_dim (num_at viewBox 2);
          height = canvas_dim (num_at viewBox 3);
          centerX = width / 2;
          centerY = height / 2;
          sz = min width height / 5
      in appendChild
           (map_attrs (setAttribute ''id'' (''shape-'' @ show_nat now))
              (new_shape pf centerX centerY sz shp))
           svg)"

subsection \<open>Gradients: applyGradient\<close>

datatype gradient_kind = Linear | Radial

definition gradient_element :: "gradient_kind \<Rightarrow> string \<Rightarrow> string \<Rightarrow> string \<Rightarrow> node" where
  "gradient_element kind newId startColor endColor =
     Element (case kind of Linear \<Rightarrow> ''linearGradient'' | Radial \<Rightarrow> ''radialGradient'')
       [(''id'', newId)]
       [Element ''stop'' [(''offset'', ''0%''), (''stop-color'', startColor)] [],
        Element ''stop'' [(''offset'', ''100%''), (''stop-color'', endColor)] []]"

text \<open>The definitions container, created as the first child where there is none.\<close>

definition ensure_defs :: "node \<Rightarrow> node" where
  "ensure_defs svg =
     (case querySelector_tag svg ''defs'' of
        Some p \<Rightarrow> svg
      | None \<Rightarrow> prepend (Element ''defs'' [] []) svg)"

definition gradient_id :: "nat \<Rightarrow> string" where
  "gradient_id now = ''grad-'' @ show_nat now"

text \<open>The \<open>style\<close> attribute after \<open>el.style.removeProperty('fill')\<close>.\<close>

definition removeProperty_fill :: "platform \<Rightarrow> attrs \<Rightarrow> attrs" where
  "removeProperty_fill pf a =
     putAttribute ''style'' (style_removeProperty pf ''fill'' (getAttribute a ''style'')) a"

text \<open>The unguarded \<open>el.style.removeProperty('fill')\<close> on the element at the path \<open>el\<close>.\<close>

definition clear_inline_fill :: "platform \<Rightarrow> nat list \<Rightarrow> node \<Rightarrow> dom_error + node" where
  "clear_inline_fill pf el doc =
     (if has_style_object (namespace_at None doc el)
      then Inr (update_at el (map_attrs (removeProperty_fill pf)) doc)
      else Inl TypeError)"

definition applyGradient_callback ::
  "platform \<Rightarrow> nat \<Rightarrow> gradient_kind \<Rightarrow> string \<Rightarrow> string \<Rightarrow> string \<Rightarrow> node \<Rightarrow> dom_error + node" where
  "applyGradient_callback pf now kind startColor endColor selectedElementId svg =
     (let doc1 = ensure_defs svg
      in case querySelector_tag doc1 ''defs'' of
           None \<Rightarrow> Inr doc1
         | Some defs \<Rightarrow>
             (case getElementById doc1 selectedElementId of
                None \<Rightarrow> Inr doc1
              | Some el \<Rightarrow>
                  (case clear_inline_fill pf el doc1 of
                     Inl e \<Rightarrow> Inl e
                   | Inr doc2 \<Rightarrow>
                       (let newId = gradient_id now;
                            doc3 = update_at defs
                                     (appendChild (gradient_element kind newId startColor endColor)) doc2;
                            doc4 = update_at el
                                     (map_attrs (setAttribute ''fill'' (''url(#'' @ newId @ '')''))) doc3
                        in Inr doc4))))"

definition applyGradient ::
  "platform \<Rightarrow> nat \<Rightarrow> string option \<Rightarrow> gradient_kind \<Rightarrow> string \<Rightarrow> string \<Rightarrow> string
     \<Rightarrow> dom_error + string option" where
  "applyGradient pf now selectedElementId kind startColor endColor svgContent =
     (if truthy_str selectedElementId then
        modifySvg pf
          (applyGradient_callback pf now kind startColor endColor (str_or_empty selectedElementId))
          svgContent
      else Inr None)"

subsection \<open>Reading the fill back (the effect that derives the panel state)\<close>










section \<open>Keyboard duplicate (SvgPreview.tsx: handleKeyDown, Ctrl+D)\<close>

text \<open>
  The offset the keyboard handler gives the clone: \<open>x\<close> and \<open>y\<close> for \<open>rect\<close>, \<open>image\<close>,
  \<open>text\<close> and \<open>use\<close>, \<open>cx\<close> and \<open>cy\<close> for \<open>circle\<close> and \<open>ellipse\<close>, an appended
  \<open>translate(10, 10)\<close> for everything else.
\<close>

definition plus10 :: "platform \<Rightarrow> attrs \<Rightarrow> string \<Rightarrow> attrs" where
  "plus10 pf a k =
     setAttribute k
       (num_toString pf (num_lift2 (+) (parseFloat pf (attr_or a k ''0'')) (Some 10))) a"

definition offset_clone :: "platform \<Rightarrow> node \<Rightarrow> node" where
  "offset_clone pf newEl =
     (case newEl of
        CharData s \<Rightarrow> CharData s
      | Element tg a cs \<Rightarrow>
          (let tagName = toLowerCase tg
           in if tagName \<in> set [''rect'', ''image'', ''text'', ''use'']
              then Element tg (plus10 pf (plus10 pf a ''x'') ''y'') cs
              else if tagName \<in> set [''circle'', ''ellipse'']
              then Element tg (plus10 pf (plus10 pf a ''cx'') ''cy'') cs
              else Element tg
                     (setAttribute ''transform'' (attr_or a ''transform'' [] @ '' translate(10, 10)'') a)
                     cs))"

text \<open>Ctrl+D with a selection: the clone gets the id \<open>dup-\<close>\<open>Date.now()\<close> and the offset,
  is inserted after the original, and the serialization goes to \<open>handleUpdate\<close>.  The
  result is read as for \<open>modifySvg\<close>.\<close>

definition keyboard_duplicate :: "platform \<Rightarrow> nat \<Rightarrow> string option \<Rightarrow> string \<Rightarrow> dom_error + string option" where
  "keyboard_duplicate pf now selectedElementId content =
     (if \<not> truthy_str selectedElementId then Inr None
      else case parseFromString pf content of
             None \<Rightarrow> Inr None
           | Some doc \<Rightarrow>
               (case getElementById doc (str_or_empty selectedElementId) of
                  None \<Rightarrow> Inr None
                | Some p \<Rightarrow>
                    (case get_at doc p of
                       None \<Rightarrow> Inr None
                     | Some el \<Rightarrow>
                         (case insert_after p
                                 (offset_clone pf
                                    (map_attrs (setAttribute ''id'' (''dup-'' @ show_nat now)) el))
                                 doc of
                            Inl e \<Rightarrow> Inl e
                          | Inr doc' \<Rightarrow> Inr (Some (outerHTML pf doc'))))))"

subsection \<open>Claim on duplication\<close>

text \<open>A rectangle at \<open>(10, 10)\<close> followed by a circle, and the two documents the two
  duplicate commands make of it at time \<open>1700\<close>.\<close>

definition rect_doc :: node where
  "rect_doc =
     Element ''svg'' [(''xmlns'', ''http://www.w3.org/2000/svg''), (''viewBox'', ''0 0 100 100'')]
       [Element ''rect'' [(''id'', ''r1''), (''x'', ''10''), (''y'', ''10''),
                           (''width'', ''20''), (''height'', ''20'')] [],
        Element ''circle'' [(''id'', ''c1''), (''cx'', ''50''), (''cy'', ''50''), (''r'', ''5'')] []]"

definition rect_doc_panel_copy :: node where
  "rect_doc_panel_copy =
     Element ''svg'' [(''xmlns'', ''http://www.w3.org/2000/svg''), (''viewBox'', ''0 0 100 100'')]
       [Element ''rect'' [(''id'', ''r1''), (''x'', ''10''), (''y'', ''10''),
                           (''width'', ''20''), (''height'', ''20'')] [],
        Element ''rect'' [(''id'', ''copy-1700''), (''x'', ''10''), (''y'', ''10''),
                           (''width'', ''20''), (''height'', ''20'')] [],
        Element ''circle'' [(''id'', ''c1''), (''cx'', ''50''), (''cy'', ''50''), (''r'', ''5'')] []]"

definition rect_doc_keyboard_copy :: node where
  "rect_doc_keyboard_copy =
     Element ''svg'' [(''xmlns'', ''http://www.w3.org/2000/svg''), (''viewBox'', ''0 0 100 100'')]
       [Element ''rect'' [(''id'', ''r1''), (''x'', ''10''), (''y'', ''10''),
                           (''width'', ''20''), (''height'', ''20'')] [],
        Element ''rect'' [(''id'', ''dup-1700''), (''x'', ''20''), (''y'', ''20''),
                           (''width'', ''20''), (''height'', ''20'')] [],
        Element ''circle'' [(''id'', ''c1''), (''cx'', ''50''), (''cy'', ''50''), (''r'', ''5'')] []]"

text \<open>
  Claim C8 on the code.  Ctrl+D does what the claim says: the clone of the rectangle at
  \<open>(10, 10)\<close> stands at \<open>(20, 20)\<close> under a new id right after the original, which is
  unchanged.  The Duplicate button of the layer list (\<open>duplicateLayer\<close>) inserts the clone
  at the same place under a new id, but without the offset: its clone stands at
  \<open>(10, 10)\<close>, exactly on the original.
\<close>

theorem duplicate_paths_differ:
  "keyboard_duplicate (stand_in [rect_doc]) 1700 (Some ''r1'') (xml_text rect_doc)
     = Inr (Some (xml_text rect_doc_keyboard_copy))
   \<and> duplicateLayer_callback 1700 ''r1'' rect_doc = Inr rect_doc_panel_copy
   \<and> modifySvg (stand_in [rect_doc]) (duplicateLayer_callback 1700 ''r1'') (xml_text rect_doc)
     = Inr (Some (xml_text rect_doc_panel_copy))
   \<and> rect_doc_panel_copy \<noteq> rect_doc_keyboard_copy"
proof -
  have k: "keyboard_duplicate (stand_in [rect_doc]) 1700 (Some ''r1'') (xml_text rect_doc)
     = Inr (Some (xml_text rect_doc_keyboard_copy))"
    by code_simp
  have c: "duplicateLayer_callback 1700 ''r1'' rect_doc = Inr rect_doc_panel_copy"
    by code_simp
  have m: "modifySvg (stand_in [rect_doc]) (duplicateLayer_callback 1700 ''r1'') (xml_text rect_doc)
     = Inr (Some (xml_text rect_doc_panel_copy))"
    by code_simp
  have d: "rect_doc_panel_copy \<noteq> rect_doc_keyboard_copy"
    by code_simp
  from k c m d show ?thesis by simp
qed



subsection \<open>Claim on the star\<close>




lemma star_points_nth:
  "i < 10 \<Longrightarrow> star_points centerX centerY sz ! i = star_vertex centerX centerY sz i"
  by (simp add: star_points_def)







section \<open>The panel's operations as one family\<close>

text \<open>
  The operations of the editor panel that save through \<open>modifySvg\<close>, with the panel state
  they read: the selection, the style properties and the shadow properties.
  \<open>updateStyle\<close>, \<open>applyGradient\<close> and \<open>alignLayer\<close> return before \<open>modifySvg\<close> when nothing
  is selected; the layer buttons and the shape buttons carry their own argument.
\<close>

datatype panel_op =
    UpdateStyle string prop_value
  | ApplyGradient gradient_kind string string
  | ToggleVisibility string
  | DeleteLayer string
  | DuplicateLayer string
  | MoveLayer string direction
  | AlignLayer alignment
  | AddShape shape

record panel =
  panel_selection :: "string option"
  panel_props :: styleProps
  panel_shadow :: shadowProps

definition alignLayer :: "platform \<Rightarrow> string option \<Rightarrow> alignment \<Rightarrow> string \<Rightarrow> dom_error + string option" where
  "alignLayer pf sel al svgContent =
     (if truthy_str sel then
        modifySvg pf (\<lambda>doc. Inr (alignLayer_callback pf (str_or_empty sel) al doc)) svgContent
      else Inr None)"

definition panel_operation :: "platform \<Rightarrow> nat \<Rightarrow> panel \<Rightarrow> panel_op \<Rightarrow> string \<Rightarrow> dom_error + string option" where
  "panel_operation pf now pn op svgContent =
     (case op of
        UpdateStyle key v \<Rightarrow>
          updateStyle pf (panel_props pn) (panel_shadow pn) (panel_selection pn) key v svgContent
      | ApplyGradient kind startColor endColor \<Rightarrow>
          applyGradient pf now (panel_selection pn) kind startColor endColor svgContent
      | ToggleVisibility i \<Rightarrow> modifySvg pf (\<lambda>doc. Inr (toggleVisibility_callback i doc)) svgContent
      | DeleteLayer i \<Rightarrow> modifySvg_dom pf (\<lambda>doc. Inr (deleteLayer_callback i doc)) svgContent
      | DuplicateLayer i \<Rightarrow> modifySvg pf (duplicateLayer_callback now i) svgContent
      | MoveLayer i dir \<Rightarrow> modifySvg pf (\<lambda>doc. Inr (moveLayer_callback i dir doc)) svgContent
      | AlignLayer al \<Rightarrow> alignLayer pf (panel_selection pn) al svgContent
      | AddShape shp \<Rightarrow> modifySvg pf (\<lambda>doc. Inr (addShape_callback pf now shp doc)) svgContent)"

subsection \<open>Claim on saving\<close>

text \<open>A document of the SVG namespace in which one rectangle, by its own \<open>xmlns\<close> attribute,
  is in no namespace: the layer list shows it (its selector goes by the tag name), and it
  has no \<open>style\<close> object.  The editor right after this document was loaded, the panel with
  that rectangle selected, and the document after its \<open>fill\<close> attribute was set.\<close>

definition foreign_doc :: node where
  "foreign_doc =
     Element ''svg'' [(''xmlns'', ''http://www.w3.org/2000/svg''), (''viewBox'', ''0 0 100 100'')]
       [Element ''rect'' [(''xmlns'', []), (''id'', ''r1''), (''width'', ''10''), (''height'', ''10'')] []]"

definition foreign_doc_filled :: node where
  "foreign_doc_filled =
     Element ''svg'' [(''xmlns'', ''http://www.w3.org/2000/svg''), (''viewBox'', ''0 0 100 100'')]
       [Element ''rect'' [(''xmlns'', []), (''id'', ''r1''), (''width'', ''10''), (''height'', ''10''),
                          (''fill'', ''#ff0000'')] []]"

definition foreign_editor :: editor where
  "foreign_editor =
     \<lparr>history = [xml_text foreign_doc], historyIndex = 0,
      currentContent = Some (xml_text foreign_doc)\<rparr>"

definition foreign_panel :: panel where
  "foreign_panel =
     \<lparr>panel_selection = Some ''r1'', panel_props = initial_styleProps,
      panel_shadow = initial_shadowProps\<rparr>"

text \<open>
  Claim C10 on the code.  The text of \<open>foreign_doc\<close> parses, and the rectangle \<open>r1\<close> is
  selected.  The gradient button reaches \<open>modifySvg\<close>, whose callback stops at the unguarded
  \<open>el.style.removeProperty('fill')\<close> with a \<open>TypeError\<close>: \<open>onUpdate\<close> is not called, and the
  editor is left as it was, without a new snapshot.  The fill field of the same panel,
  whose callback tests \<open>if (el.style)\<close> before it touches the inline style, saves once on
  the same document and selection.
\<close>

theorem gradient_without_style_object_saves_nothing:
  "parseFromString (stand_in [foreign_doc]) (svgContent_of foreign_editor) = Some foreign_doc
   \<and> panel_operation (stand_in [foreign_doc]) 1700 foreign_panel
        (ApplyGradient Linear ''#ff0000'' ''#0000ff'') (svgContent_of foreign_editor)
      = Inl TypeError
   \<and> panel_step (panel_operation (stand_in [foreign_doc]) 1700 foreign_panel
                    (ApplyGradient Linear ''#ff0000'' ''#0000ff'')) foreign_editor
      = foreign_editor
   \<and> panel_operation (stand_in [foreign_doc]) 1700 foreign_panel
        (UpdateStyle ''fill'' (Str ''#ff0000'')) (svgContent_of foreign_editor)
      = Inr (Some (xml_text foreign_doc_filled))
   \<and> history (panel_step (panel_operation (stand_in [foreign_doc]) 1700 foreign_panel
                             (UpdateStyle ''fill'' (Str ''#ff0000''))) foreign_editor)
      = [xml_text foreign_doc, xml_text foreign_doc_filled]"
proof -
  let ?pf = "stand_in [foreign_doc]"
  have c: "svgContent_of foreign_editor = xml_text foreign_doc"
    by (simp add: svgContent_of_def foreign_editor_def)
  have p: "parseFromString ?pf (svgContent_of foreign_editor) = Some foreign_doc"
    unfolding c by code_simp
  have g: "applyGradient ?pf 1700 (Some ''r1'') Linear ''#ff0000'' ''#0000ff'' (xml_text foreign_doc)
      = Inl TypeError"
    by code_simp
  have go: "panel_operation ?pf 1700 foreign_panel (ApplyGradient Linear ''#ff0000'' ''#0000ff'')
        (svgContent_of foreign_editor) = Inl TypeError"
    unfolding c using g by (simp add: panel_operation_def foreign_panel_def)
  have gs: "panel_step (panel_operation ?pf 1700 foreign_panel
        (ApplyGradient Linear ''#ff0000'' ''#0000ff'')) foreign_editor = foreign_editor"
    by (simp add: panel_step_def go)
  have u: "updateStyle ?pf initial_styleProps initial_shadowProps (Some ''r1'') ''fill''
        (Str ''#ff0000'') (xml_text foreign_doc)
      = Inr (Some (xml_text foreign_doc_filled))"
    by code_simp
  have uo: "panel_operation ?pf 1700 foreign_panel (UpdateStyle ''fill'' (Str ''#ff0000''))
        (svgContent_of foreign_editor) = Inr (Some (xml_text foreign_doc_filled))"
    unfolding c using u by (simp add: panel_operation_def foreign_panel_def)
  have us: "panel_step (panel_operation ?pf 1700 foreign_panel
        (UpdateStyle ''fill'' (Str ''#ff0000''))) foreign_editor
      = handleUpdate (xml_text foreign_doc_filled) foreign_editor"
    by (simp add: panel_step_def uo)
  have uh: "history (panel_step (panel_operation ?pf 1700 foreign_panel
        (UpdateStyle ''fill'' (Str ''#ff0000''))) foreign_editor)
      = [xml_text foreign_doc, xml_text foreign_doc_filled]"
    unfolding us by (simp add: handleUpdate_def Let_def js_slice0_def foreign_editor_def)
  show ?thesis by (intro conjI p go gs uo uh)
qed

section \<open>Gradient round trip\<close>

subsection \<open>Searching a changed tree\<close>








subsection \<open>Reading a changed tree\<close>








subsection \<open>The definitions container\<close>



subsection \<open>Selection artifacts under the changes of the callback\<close>






subsection \<open>The changes of the callback on a document with a definitions container\<close>


subsection \<open>Reading the reference back\<close>






subsection \<open>Claim on the gradient round trip\<close>







section \<open>Writing the transform: the drag and the panel\<close>

subsection \<open>The drag: handleMove (SvgPreview.tsx)\<close>

text \<open>\<open>s.replace(/\s+/g, ' ')\<close>: every run of white space becomes one space.\<close>

fun collapse_ws :: "string \<Rightarrow> string" where
  "collapse_ws [] = []"
| "collapse_ws [c] = (if is_space c then '' '' else [c])"
| "collapse_ws (c # d # cs) =
     (if is_space c \<and> is_space d then collapse_ws (d # cs)
      else (if is_space c then CHR '' '' else c) # collapse_ws (d # cs))"

text \<open>The template literal of \<open>handleMove\<close>, with its line breaks and indentation, then
  \<open>.replace(/\s+/g, ' ').trim()\<close>.  The rotation is printed as a number, the scales with
  \<open>toFixed(3)\<close>, the skews with \<open>toFixed(1)\<close>.\<close>

definition transformStr :: "platform \<Rightarrow> transform \<Rightarrow> string" where
  "transformStr pf newTransform =
     trim (collapse_ws
       ([CHR 0x0A] @ ''                rotate('' @ num_toString pf (Some (rotate newTransform)) @ ''deg) ''
        @ [CHR 0x0A] @ ''                scale('' @ toFixed pf 3 (scaleX newTransform) @ '', ''
            @ toFixed pf 3 (scaleY newTransform) @ '') ''
        @ [CHR 0x0A] @ ''                skewX('' @ toFixed pf 1 (skewX newTransform) @ ''deg) ''
        @ [CHR 0x0A] @ ''                skewY('' @ toFixed pf 1 (skewY newTransform) @ ''deg)''
        @ [CHR 0x0A] @ ''            ''))"

text \<open>What \<open>handleMove\<close> writes to the dragged element.\<close>

definition handleMove_element :: "platform \<Rightarrow> transform \<Rightarrow> node \<Rightarrow> node" where
  "handleMove_element pf newTransform el =
     (case el of
        CharData s \<Rightarrow> CharData s
      | Element tagName a cs \<Rightarrow>
          (let currentStyle = attr_or a ''style'' [];
               newStyle = trim (remove_decl ''transform'' currentStyle)
           in Element tagName
                (setAttribute ''style''
                   (newStyle @ '' transform: '' @ transformStr pf newTransform
                      @ ''; transform-box: fill-box; transform-origin: center;'') a) cs))"

subsection \<open>Claim on the serialized transform\<close>

text \<open>A rectangle, a skew gesture on its top handle (Ctrl held, the pointer moved 20
  pixels to the right at zoom 1), and the element after that drag.\<close>

definition plain_rect :: node where
  "plain_rect =
     Element ''rect'' [(''id'', ''r1''), (''x'', ''10''), (''y'', ''10''), (''width'', ''20''),
                       (''height'', ''20'')] []"

definition skew_gesture :: gesture where
  "skew_gesture =
     \<lparr>handle = ''n'', startX = 0, startY = 0, startTransform = initial_transform,
      boxCenterX = 0, boxCenterY = 0\<rparr>"

definition skew_event :: mouse_event where
  "skew_event = \<lparr>clientX = 20, clientY = 0, ctrlKey = True, metaKey = False\<rparr>"

definition skewed_rect :: node where
  "skewed_rect =
     Element ''rect'' [(''id'', ''r1''), (''x'', ''10''), (''y'', ''10''), (''width'', ''20''),
                       (''height'', ''20''),
                       (''style'', '' transform: rotate(0deg) scale(1.000, 1.000) skewX(10.0deg) skewY(0.0deg); transform-box: fill-box; transform-origin: center;'')] []"

definition panel_rotated_rect :: node where
  "panel_rotated_rect =
     Element ''rect'' [(''id'', ''r1''), (''x'', ''10''), (''y'', ''10''), (''width'', ''20''),
                       (''height'', ''20''),
                       (''style'', ''transform-box: fill-box; transform-origin: center; transform: rotate(45deg) scale(1, 1); transform-box: fill-box; transform-origin: center;'')] []"

definition style_of :: "node \<Rightarrow> string" where
  "style_of n = (case n of Element t a cs \<Rightarrow> attr_or a ''style'' [] | CharData s \<Rightarrow> [])"

text \<open>
  Claim C1.  The two writers of the transform differ.  The drag writes the four functions
  \<open>rotate\<close>, \<open>scale\<close>, \<open>skewX\<close>, \<open>skewY\<close> in this order from all five channels of its
  transform state: the skew gesture gives a skew of 10 degrees along x, and \<open>handleMove\<close>
  writes it.  The panel's \<open>updateStyle('rotate', '45')\<close> on the skewed element, with the
  panel state that belongs to it (rotation 0, scale 1, no flip), replaces the declaration
  by one with \<open>rotate\<close> and \<open>scale\<close> only: the transform it writes has no skew function,
  and the skew of 10 degrees is gone.
\<close>

theorem panel_edit_drops_skew:
  "handleMove_transform skew_gesture 1 None skew_event
     = \<lparr>rotate = 0, scaleX = 1, scaleY = 1, skewX = 10, skewY = 0\<rparr>
   \<and> handleMove_element (stand_in []) (handleMove_transform skew_gesture 1 None skew_event) plain_rect
     = skewed_rect
   \<and> js_includes (style_of skewed_rect) ''rotate(0deg) scale(1.000, 1.000) skewX(10.0deg) skewY(0.0deg)''
   \<and> updateStyle_callback (stand_in []) (set_prop ''rotate'' (Str ''45'') initial_styleProps)
        initial_shadowProps ''r1'' ''rotate'' (Str ''45'')
        (Element ''svg'' [(''xmlns'', ''http://www.w3.org/2000/svg'')] [skewed_rect])
     = Element ''svg'' [(''xmlns'', ''http://www.w3.org/2000/svg'')] [panel_rotated_rect]
   \<and> \<not> js_includes (style_of panel_rotated_rect) ''skew''"
proof -
  have t: "handleMove_transform skew_gesture 1 None skew_event
     = \<lparr>rotate = 0, scaleX = 1, scaleY = 1, skewX = 10, skewY = 0\<rparr>"
    by (simp add: handleMove_transform_def skew_gesture_def skew_event_def initial_transform_def
        includes_char_def)
  have d: "handleMove_element (stand_in []) \<lparr>rotate = 0, scaleX = 1, scaleY = 1, skewX = 10, skewY = 0\<rparr>
      plain_rect = skewed_rect"
    by code_simp
  have i: "js_includes (style_of skewed_rect)
      ''rotate(0deg) scale(1.000, 1.000) skewX(10.0deg) skewY(0.0deg)''"
    by code_simp
  have p: "updateStyle_callback (stand_in []) (set_prop ''rotate'' (Str ''45'') initial_styleProps)
        initial_shadowProps ''r1'' ''rotate'' (Str ''45'')
        (Element ''svg'' [(''xmlns'', ''http://www.w3.org/2000/svg'')] [skewed_rect])
     = Element ''svg'' [(''xmlns'', ''http://www.w3.org/2000/svg'')] [panel_rotated_rect]"
    by code_simp
  have n: "\<not> js_includes (style_of panel_rotated_rect) ''skew''"
    by code_simp
  from t d i p n show ?thesis by simp
qed

end
